theory Spec2Isabelle
  imports Main "HOL-Library.Sublist"
begin

section \<open>JavaScript string operations used by the sources\<close>

text \<open>
  Strings are lists of \<^typ>\<open>char\<close>, one per code unit; code units above 255 are outside
  the model, and only ASCII code units occur in the literals of the sources. The helpers
  below are the built-in methods the sources call (\<^verbatim>\<open>replace\<close> with a global pattern,
  \<^verbatim>\<open>split\<close>, \<^verbatim>\<open>join\<close>, \<^verbatim>\<open>trim\<close>, \<^verbatim>\<open>includes\<close>, \<^verbatim>\<open>endsWith\<close>, \<^verbatim>\<open>slice\<close>).
\<close>

text \<open>\<^verbatim>\<open>s.replace(/\\/g, '/')\<close>: every backslash becomes a forward slash.\<close>

definition replaceBackslashes :: "string \<Rightarrow> string" where
  "replaceBackslashes s = map (\<lambda>c. if c = CHR 0x5C then CHR ''/'' else c) s"

text \<open>\<^verbatim>\<open>s.split(sep)\<close> for a one-character separator: never the empty array.\<close>

fun js_split :: "char \<Rightarrow> string \<Rightarrow> string list" where
  "js_split sep [] = [[]]"
| "js_split sep (c # cs) =
     (if c = sep then [] # js_split sep cs
      else (case js_split sep cs of
              [] \<Rightarrow> [[c]]
            | w # ws \<Rightarrow> (c # w) # ws))"

text \<open>\<^verbatim>\<open>parts.join(sep)\<close> for a one-character separator.\<close>

fun js_join :: "char \<Rightarrow> string list \<Rightarrow> string" where
  "js_join sep [] = []"
| "js_join sep [w] = w"
| "js_join sep (w # v # ws) = w @ sep # js_join sep (v # ws)"

text \<open>
  The white space \<^verbatim>\<open>trim\<close> removes, among the code units a \<^typ>\<open>char\<close> can hold: tab,
  line feed, vertical tab, form feed, carriage return, space and no-break space.
\<close>

definition isWhitespace :: "char \<Rightarrow> bool" where
  "isWhitespace c \<longleftrightarrow>
     c = CHR 0x09 \<or> c = CHR 0x0A \<or> c = CHR 0x0B \<or> c = CHR 0x0C \<or> c = CHR 0x0D \<or>
     c = CHR 0x20 \<or> c = CHR 0xA0"

definition js_trim :: "string \<Rightarrow> string" where
  "js_trim s = rev (dropWhile isWhitespace (rev (dropWhile isWhitespace s)))"

text \<open>\<^verbatim>\<open>s.includes(sub)\<close>: \<open>sub\<close> occurs in \<open>s\<close> as a contiguous substring.\<close>

fun js_includes :: "string \<Rightarrow> string \<Rightarrow> bool" where
  "js_includes [] sub = (sub = [])"
| "js_includes (c # cs) sub = (prefix sub (c # cs) \<or> js_includes cs sub)"

text \<open>\<^verbatim>\<open>s.endsWith(sub)\<close>.\<close>

definition endsWith :: "string \<Rightarrow> string \<Rightarrow> bool" where
  "endsWith s sub = suffix sub s"

text \<open>\<^verbatim>\<open>s.replace(/\*\*/g, '*')\<close>: the non-overlapping pairs of stars, from the left.\<close>

fun replaceStarStar :: "string \<Rightarrow> string" where
  "replaceStarStar (a # b # cs) =
     (if a = CHR ''*'' \<and> b = CHR ''*'' then CHR ''*'' # replaceStarStar cs
      else a # replaceStarStar (b # cs))"
| "replaceStarStar cs = cs"

text \<open>\<^verbatim>\<open>s.replace(/\?/g, '?')\<close>: every question mark is replaced by itself.\<close>

definition replaceQuestion :: "string \<Rightarrow> string" where
  "replaceQuestion s = map (\<lambda>c. if c = CHR ''?'' then CHR ''?'' else c) s"

text \<open>\<^verbatim>\<open>[...new Set(xs)]\<close>: the elements in the order of their first occurrence.\<close>

definition setToArray :: "'a list \<Rightarrow> 'a list" where
  "setToArray xs = foldl (\<lambda>seen x. if x \<in> set seen then seen else seen @ [x]) [] xs"

section \<open>utils.ts: processExcludePatterns\<close>

text \<open>The body of the inner loop: trim the piece and push it when it is not empty.\<close>

definition pushTrimmed :: "string list \<Rightarrow> string \<Rightarrow> string list" where
  "pushTrimmed patterns v =
     (let trimmed = js_trim v in
      if trimmed \<noteq> [] then patterns @ [trimmed] else patterns)"

definition processExcludePatterns :: "string list \<Rightarrow> string list" where
  "processExcludePatterns excludeOptions =
     (if excludeOptions = [] then []
      else foldl (\<lambda>patterns option. foldl pushTrimmed patterns (js_split CHR '','' option))
             [] excludeOptions)"

section \<open>index.ts: processExcludePatternsForRobocopy\<close>

record robocopy_excludes =
  dirExcludes :: "string list"
  fileExcludes :: "string list"

text \<open>The body of the loop over the patterns, on the two arrays it pushes to.\<close>

definition classifyPattern :: "robocopy_excludes \<Rightarrow> string \<Rightarrow> robocopy_excludes" where
  "classifyPattern acc pattern =
     (let normalizedPattern = replaceBackslashes pattern in
      if endsWith normalizedPattern ''/**'' then
        acc\<lparr>dirExcludes := dirExcludes acc @ [take (length normalizedPattern - 3) normalizedPattern]\<rparr>
      else if js_includes normalizedPattern ''/'' then
        (let parts = js_split CHR ''/'' normalizedPattern in
         if \<not> js_includes (last parts) ''*'' then
           acc\<lparr>dirExcludes := dirExcludes acc @ [js_join (CHR 0x5C) parts]\<rparr>
         else acc)
      else
        (let filePattern = replaceQuestion (replaceStarStar normalizedPattern) in
         if endsWith filePattern ''/'' then
           acc\<lparr>dirExcludes := dirExcludes acc @ [butlast filePattern]\<rparr>
         else if \<not> js_includes filePattern ''*'' \<and> \<not> js_includes filePattern ''?'' then
           (if \<not> js_includes filePattern ''.'' then
              acc\<lparr>dirExcludes := dirExcludes acc @ [filePattern]\<rparr>
            else
              acc\<lparr>fileExcludes := fileExcludes acc @ [filePattern]\<rparr>)
         else
           acc\<lparr>fileExcludes := fileExcludes acc @ [filePattern]\<rparr>))"

text \<open>The four checks after the loop, each pushing a bare directory name.\<close>

definition pushIfSome :: "string list \<Rightarrow> string \<Rightarrow> string \<Rightarrow> string list \<Rightarrow> string list" where
  "pushIfSome excludePatterns needle name dirs =
     (if list_ex (\<lambda>p. js_includes p needle) excludePatterns then dirs @ [name] else dirs)"

definition processExcludePatternsForRobocopy :: "string list \<Rightarrow> robocopy_excludes" where
  "processExcludePatternsForRobocopy excludePatterns =
     (let acc = foldl classifyPattern \<lparr>dirExcludes = [], fileExcludes = []\<rparr> excludePatterns;
          d1 = pushIfSome excludePatterns ''node_modules'' ''node_modules'' (dirExcludes acc);
          d2 = pushIfSome excludePatterns ''dist/'' ''dist'' d1;
          d3 = pushIfSome excludePatterns ''build/'' ''build'' d2;
          d4 = pushIfSome excludePatterns ''.git'' ''.git'' d3
      in \<lparr>dirExcludes = setToArray d4, fileExcludes = setToArray (fileExcludes acc)\<rparr>)"

section \<open>The system the program runs on\<close>

text \<open>
  The file system, the glob libraries, the \<^verbatim>\<open>path\<close> module and the child process are
  not part of the sources. They are parameters of the model: a record of operations
  over a world \<open>'w\<close> that every operation may read and change. An operation that
  rejects or throws returns the error as a value.
\<close>

type_synonym path = string

text \<open>
  The \<^verbatim>\<open>status\<close> property of an error object at run time: absent (\<^verbatim>\<open>undefined\<close>),
  \<^verbatim>\<open>null\<close>, or a number. The sources declare it \<^verbatim>\<open>status?: number\<close>, which is a cast
  and checks nothing.
\<close>

datatype js_status = StatusUndefined | StatusNull | StatusNumber nat

text \<open>An \<^verbatim>\<open>Error\<close> object: its message and its \<^verbatim>\<open>status\<close>.\<close>

datatype js_error = JsError (message: string) (status: js_status)

text \<open>How the command given to \<^verbatim>\<open>execSync\<close> ended: an exit status, or no process at all.\<close>

datatype proc_result = Exited nat | NotStarted string

record 'w system =
  fs_access :: "path \<Rightarrow> 'w \<Rightarrow> js_error option \<times> 'w"
  fs_ensureDir :: "path \<Rightarrow> 'w \<Rightarrow> js_error option \<times> 'w"
  fs_stat :: "path \<Rightarrow> 'w \<Rightarrow> (js_error + bool) \<times> 'w"
  fs_copy :: "path \<Rightarrow> path \<Rightarrow> bool \<Rightarrow> 'w \<Rightarrow> js_error option \<times> 'w"
  fast_glob :: "path \<Rightarrow> 'w \<Rightarrow> (js_error + string list) \<times> 'w"
  run_command :: "string \<Rightarrow> bool \<Rightarrow> 'w \<Rightarrow> proc_result \<times> 'w"
  minimatch :: "string \<Rightarrow> string \<Rightarrow> bool"
  path_resolve :: "path \<Rightarrow> path"
  path_resolve2 :: "path \<Rightarrow> path \<Rightarrow> path"
  path_join :: "path \<Rightarrow> path \<Rightarrow> path"
  path_dirname :: "path \<Rightarrow> path"
  path_basename :: "path \<Rightarrow> path"
  os_platform :: string

text \<open>
  \<^item> \<open>fs_stat\<close> answers \<^verbatim>\<open>isDirectory()\<close>;
  \<^item> the flag of \<open>fs_copy\<close> says whether the call passes
    \<^verbatim>\<open>{preserveTimestamps: true, errorOnExist: false}\<close>;
  \<^item> \<open>fast_glob\<close> is \<^verbatim>\<open>fg(['**'], {cwd, dot: true, onlyFiles: false, followSymbolicLinks: false})\<close>;
  \<^item> the flag of \<open>run_command\<close> says whether \<^verbatim>\<open>stdio\<close> is inherited;
  \<^item> \<open>minimatch\<close> takes the path and the pattern, with \<^verbatim>\<open>{dot: true}\<close>.
\<close>

text \<open>
  \<^verbatim>\<open>child_process.execSync\<close>: it returns when the command exits with status 0, and throws
  an error carrying the exit status otherwise; when the command could not be started
  there is no exit status, and the error Node throws carries \<^verbatim>\<open>status: null\<close>. The errors
  of the file system carry no \<^verbatim>\<open>status\<close> at all.
\<close>

definition execSync ::
  "(string \<Rightarrow> bool \<Rightarrow> 'w \<Rightarrow> proc_result \<times> 'w) \<Rightarrow> string \<Rightarrow> bool \<Rightarrow> 'w \<Rightarrow> js_error option \<times> 'w" where
  "execSync run command inherit w =
     (case run command inherit w of
        (Exited n, w') \<Rightarrow>
          (if n = 0 then None
           else Some (JsError (''Command failed: '' @ command) (StatusNumber n)), w')
      | (NotStarted m, w') \<Rightarrow> (Some (JsError m StatusNull), w'))"

text \<open>The lines the program writes to the console, one constructor per message.\<close>

datatype console_line =
    CopyingFrom path
  | CopyingTo path
  | ExcludingPatterns
  | ListItem string
  | RobocopyFailed
  | ErrorObject js_error
  | UsingRobocopy string
  | DirectoryExclusions
  | FileExclusions
  | SkippingExcluded path
  | CopiedFile path
  | FoundEntries nat
  | AfterExclusion nat
  | Progress nat
  | FailedToCopy string string
  | Summary nat nat

record 'w io =
  world :: 'w
  console :: "console_line list"

definition emit :: "console_line list \<Rightarrow> 'w io \<Rightarrow> 'w io" where
  "emit ls st = st\<lparr>console := console st @ ls\<rparr>"

definition emitIf :: "bool \<Rightarrow> console_line list \<Rightarrow> 'w io \<Rightarrow> 'w io" where
  "emitIf b ls st = (if b then emit ls st else st)"

section \<open>index.ts: shouldExclude\<close>

definition shouldExclude :: "(string \<Rightarrow> string \<Rightarrow> bool) \<Rightarrow> string \<Rightarrow> string list \<Rightarrow> bool" where
  "shouldExclude mm filePath excludePatterns =
     (if length excludePatterns = 0 then False
      else
        (let normalizedPath = replaceBackslashes filePath in
         list_ex (\<lambda>pattern.
             let normalizedPattern = replaceBackslashes pattern in
             mm normalizedPath normalizedPattern)
           excludePatterns))"

text \<open>
  Modelled from the spec: the package \<^verbatim>\<open>minimatch\<close> is not among the sources. This
  matcher follows section 4.2 of the specification: \<^verbatim>\<open>*\<close> matches any sequence of
  characters except the separator, \<^verbatim>\<open>**\<close> any sequence of characters including
  separators, \<^verbatim>\<open>?\<close> exactly one character except the separator, every other character
  itself; a leading dot is an ordinary character. The pattern is the first argument.
\<close>

fun globMatch :: "string \<Rightarrow> string \<Rightarrow> bool" where
  "globMatch [] s = (s = [])"
| "globMatch (c # p) s =
     (if c = CHR ''*'' then
        (case p of
           d # q \<Rightarrow>
             if d = CHR ''*'' then
               (case s of
                  [] \<Rightarrow> globMatch q []
                | x # t \<Rightarrow> globMatch q (x # t) \<or> globMatch (c # p) t)
             else
               (case s of
                  [] \<Rightarrow> globMatch p []
                | x # t \<Rightarrow> globMatch p (x # t) \<or> (x \<noteq> CHR ''/'' \<and> globMatch (c # p) t))
         | [] \<Rightarrow>
             (case s of
                [] \<Rightarrow> True
              | x # t \<Rightarrow> x \<noteq> CHR ''/'' \<and> globMatch (c # p) t))
      else if c = CHR ''?'' then
        (case s of
           [] \<Rightarrow> False
         | x # t \<Rightarrow> x \<noteq> CHR ''/'' \<and> globMatch p t)
      else
        (case s of
           [] \<Rightarrow> False
         | x # t \<Rightarrow> x = c \<and> globMatch p t))"

definition specMinimatch :: "string \<Rightarrow> string \<Rightarrow> bool" where
  "specMinimatch p pattern = globMatch pattern p"

section \<open>index.ts: useNodeImplementation\<close>

definition BATCH_SIZE :: nat where
  "BATCH_SIZE = 100"

text \<open>\<^verbatim>\<open>xs.slice(a, b)\<close> for \<open>0 \<le> a \<le> b\<close>.\<close>

definition js_slice :: "'a list \<Rightarrow> nat \<Rightarrow> nat \<Rightarrow> 'a list" where
  "js_slice xs a b = take (b - a) (drop a xs)"

text \<open>
  The callback given to \<^verbatim>\<open>batch.map\<close>, on the counter \<^verbatim>\<open>copiedCount\<close> and the state of
  the run. \<open>Some err\<close> is a rejected promise: the first \<^verbatim>\<open>ensureDir\<close> stands before the
  \<^verbatim>\<open>try\<close>, so its failure is not caught. A failure inside the \<^verbatim>\<open>try\<close> is written to
  \<^verbatim>\<open>console.error\<close> and the promise resolves.
\<close>

definition copyEntry ::
  "'w system \<Rightarrow> path \<Rightarrow> path \<Rightarrow> bool \<Rightarrow> string \<Rightarrow> nat \<times> 'w io \<Rightarrow> js_error option \<times> nat \<times> 'w io" where
  "copyEntry sys inputPathResolved outputPath verbose entry cs =
     (case cs of (copiedCount, st) \<Rightarrow>
      (let sourcePath = path_join sys inputPathResolved entry;
           destPath = path_join sys outputPath entry in
       case fs_ensureDir sys (path_dirname sys destPath) (world st) of
         (Some err, w1) \<Rightarrow> (Some err, copiedCount, st\<lparr>world := w1\<rparr>)
       | (None, w1) \<Rightarrow>
           (case fs_stat sys sourcePath w1 of
              (Inl err, w2) \<Rightarrow>
                (None, copiedCount, emit [FailedToCopy entry (message err)] (st\<lparr>world := w2\<rparr>))
            | (Inr isDirectory, w2) \<Rightarrow>
                (case (if isDirectory then fs_ensureDir sys destPath w2
                       else fs_copy sys sourcePath destPath True w2) of
                   (Some err, w3) \<Rightarrow>
                     (None, copiedCount, emit [FailedToCopy entry (message err)] (st\<lparr>world := w3\<rparr>))
                 | (None, w3) \<Rightarrow>
                     (None, copiedCount + 1,
                      emitIf (verbose \<and> (copiedCount + 1) mod 100 = 0) [Progress (copiedCount + 1)]
                        (st\<lparr>world := w3\<rparr>))))))"

text \<open>
  \<^verbatim>\<open>await Promise.all(xs.map(f))\<close>: every callback is started, and the await throws when
  one of them rejects. The callbacks of a batch overlap in time; the model runs them
  one after the other in the order of the array, each to its end, and keeps the first
  rejection in that order.
\<close>

fun promiseAll :: "('a \<Rightarrow> 's \<Rightarrow> js_error option \<times> 's) \<Rightarrow> 'a list \<Rightarrow> 's \<Rightarrow> js_error option \<times> 's" where
  "promiseAll f [] s = (None, s)"
| "promiseAll f (x # xs) s =
     (case f x s of
        (r, s1) \<Rightarrow>
          (case promiseAll f xs s1 of
             (rs, s2) \<Rightarrow> ((case r of Some err \<Rightarrow> Some err | None \<Rightarrow> rs), s2)))"

text \<open>The loop over the batches, from index \<open>i\<close>.\<close>

function copyLoop ::
  "'w system \<Rightarrow> path \<Rightarrow> path \<Rightarrow> bool \<Rightarrow> string list \<Rightarrow> nat \<Rightarrow> nat \<times> 'w io \<Rightarrow> js_error option \<times> nat \<times> 'w io" where
  "copyLoop sys inputPathResolved outputPath verbose filteredEntries i cs =
     (if i < length filteredEntries then
        (let batch = js_slice filteredEntries i (i + BATCH_SIZE) in
         case promiseAll (copyEntry sys inputPathResolved outputPath verbose) batch cs of
           (Some err, cs1) \<Rightarrow> (Some err, cs1)
         | (None, cs1) \<Rightarrow>
             copyLoop sys inputPathResolved outputPath verbose filteredEntries (i + BATCH_SIZE) cs1)
      else (None, cs))"
  by pat_completeness auto
termination
  by (relation "measure (\<lambda>(sys, inputPathResolved, outputPath, verbose, filteredEntries, i, cs).
        length filteredEntries - i)")
     (auto simp: BATCH_SIZE_def)

declare copyLoop.simps [simp del]

definition useNodeImplementation ::
  "'w system \<Rightarrow> path \<Rightarrow> path \<Rightarrow> string list \<Rightarrow> bool \<Rightarrow> 'w io \<Rightarrow> js_error option \<times> 'w io" where
  "useNodeImplementation sys inputPath outputPath excludePatterns verbose st =
     (case fs_stat sys inputPath (world st) of
        (Inl err, w1) \<Rightarrow> (Some err, st\<lparr>world := w1\<rparr>)
      | (Inr isDirectory, w1) \<Rightarrow>
          if \<not> isDirectory then
            (let filename = path_basename sys inputPath;
                 destFilePath = path_resolve2 sys outputPath filename;
                 relativePath = filename in
             if shouldExclude (minimatch sys) relativePath excludePatterns then
               (None, emitIf verbose [SkippingExcluded relativePath] (st\<lparr>world := w1\<rparr>))
             else
               (case fs_copy sys inputPath destFilePath False w1 of
                  (Some err, w2) \<Rightarrow> (Some err, st\<lparr>world := w2\<rparr>)
                | (None, w2) \<Rightarrow> (None, emitIf verbose [CopiedFile relativePath] (st\<lparr>world := w2\<rparr>))))
          else
            (let inputPathResolved = path_resolve sys inputPath in
             case fast_glob sys inputPathResolved w1 of
               (Inl err, w2) \<Rightarrow> (Some err, st\<lparr>world := w2\<rparr>)
             | (Inr entries, w2) \<Rightarrow>
                 (let st2 = emitIf verbose [FoundEntries (length entries)] (st\<lparr>world := w2\<rparr>);
                      filteredEntries =
                        filter (\<lambda>entry. \<not> shouldExclude (minimatch sys) entry excludePatterns) entries;
                      st3 = emitIf verbose [AfterExclusion (length filteredEntries)] st2 in
                  case copyLoop sys inputPathResolved outputPath verbose filteredEntries 0 (0, st3) of
                    (Some err, copiedCount, st4) \<Rightarrow> (Some err, st4)
                  | (None, copiedCount, st4) \<Rightarrow>
                      (None, emitIf verbose [Summary copiedCount (length filteredEntries)] st4))))"

section \<open>index.ts: useWindowsRobocopy\<close>

text \<open>
  \<^verbatim>\<open>exitCode <= k\<close> on a status: the comparison converts \<^verbatim>\<open>null\<close> to the number 0 and
  \<^verbatim>\<open>undefined\<close> to \<^verbatim>\<open>NaN\<close>, which compares false.
\<close>

fun statusAtMost :: "js_status \<Rightarrow> nat \<Rightarrow> bool" where
  "statusAtMost StatusUndefined k = False"
| "statusAtMost StatusNull k = True"
| "statusAtMost (StatusNumber n) k = (n \<le> k)"

definition quoted :: "string \<Rightarrow> string" where
  "quoted s = CHR 0x22 # s @ [CHR 0x22]"

definition robocopyCommand :: "path \<Rightarrow> path \<Rightarrow> robocopy_excludes \<Rightarrow> string" where
  "robocopyCommand sourceDir destDir ex =
     ''robocopy '' @ quoted sourceDir @ '' '' @ quoted destDir @ '' /E /NFL /NDL'' @
     (if length (fileExcludes ex) > 0
      then '' /XF '' @ js_join CHR '' '' (map quoted (fileExcludes ex)) else []) @
     (if length (dirExcludes ex) > 0
      then '' /XD '' @ js_join CHR '' '' (map quoted (dirExcludes ex)) else [])"

definition useWindowsRobocopy ::
  "'w system \<Rightarrow> path \<Rightarrow> path \<Rightarrow> string list \<Rightarrow> bool \<Rightarrow> 'w io \<Rightarrow> js_error option \<times> 'w io" where
  "useWindowsRobocopy sys inputPath outputPath excludePatterns verbose st =
     (let sourceDir = path_resolve sys inputPath;
          destDir = path_resolve sys outputPath;
          ex = processExcludePatternsForRobocopy excludePatterns;
          command = robocopyCommand sourceDir destDir ex;
          st1 = emitIf verbose
                  ([UsingRobocopy command] @
                   (if length (dirExcludes ex) > 0
                    then DirectoryExclusions # map ListItem (dirExcludes ex) else []) @
                   (if length (fileExcludes ex) > 0
                    then FileExclusions # map ListItem (fileExcludes ex) else []))
                  st in
      case execSync (run_command sys) command verbose (world st1) of
        (None, w1) \<Rightarrow> (None, st1\<lparr>world := w1\<rparr>)
      | (Some error, w1) \<Rightarrow>
          (let exitCode = status error in
           if exitCode \<noteq> StatusUndefined \<and> statusAtMost exitCode 7
           then (None, st1\<lparr>world := w1\<rparr>)
           else (Some error, st1\<lparr>world := w1\<rparr>)))"

text \<open>How the command of \<open>useWindowsRobocopy\<close> ends when it is run in the state \<open>st\<close>.\<close>

definition acceleratorExit ::
  "'w system \<Rightarrow> path \<Rightarrow> path \<Rightarrow> string list \<Rightarrow> bool \<Rightarrow> 'w io \<Rightarrow> proc_result" where
  "acceleratorExit sys inputPath outputPath excludePatterns verbose st =
     fst (run_command sys
            (robocopyCommand (path_resolve sys inputPath) (path_resolve sys outputPath)
               (processExcludePatternsForRobocopy excludePatterns))
            verbose (world st))"

section \<open>index.ts: copyFiles\<close>

definition DEFAULT_EXCLUDE_PATTERNS :: "string list" where
  "DEFAULT_EXCLUDE_PATTERNS =
     [''node_modules/**'', ''dist/**'', ''build/**'', ''temp/**'', ''delete/**'', ''bin/**'',
      ''obj/**'', ''cache/**'', ''tmp/**'', ''.DS_Store'', ''coverage/**'', ''.cache/**'',
      ''.idea/**'', ''*.log'']"

record copy_options =
  opt_excludePatterns :: "string list"
  opt_ignoreDefaults :: bool
  opt_verbose :: bool

definition copyFiles ::
  "'w system \<Rightarrow> path \<Rightarrow> path \<Rightarrow> copy_options \<Rightarrow> 'w io \<Rightarrow> js_error option \<times> 'w io" where
  "copyFiles sys inputPath outputPath options st =
     (let excludePatterns = opt_excludePatterns options;
          ignoreDefaults = opt_ignoreDefaults options;
          verbose = opt_verbose options;
          st0 = emitIf verbose [CopyingFrom inputPath, CopyingTo outputPath] st in
      case fs_access sys inputPath (world st0) of
        (Some error, w1) \<Rightarrow>
          (Some (JsError (''Source path does not exist: '' @ inputPath) StatusUndefined), st0\<lparr>world := w1\<rparr>)
      | (None, w1) \<Rightarrow>
          (case fs_ensureDir sys outputPath w1 of
             (Some error, w2) \<Rightarrow> (Some error, st0\<lparr>world := w2\<rparr>)
           | (None, w2) \<Rightarrow>
               (let allExcludePatterns =
                      (if ignoreDefaults then excludePatterns
                       else DEFAULT_EXCLUDE_PATTERNS @ excludePatterns);
                    st2 = emitIf (verbose \<and> length allExcludePatterns > 0)
                            (ExcludingPatterns # map ListItem allExcludePatterns)
                            (st0\<lparr>world := w2\<rparr>);
                    isWindows = (os_platform sys = ''win32'') in
                case fs_stat sys inputPath (world st2) of
                  (Inl error, w3) \<Rightarrow> (Some error, st2\<lparr>world := w3\<rparr>)
                | (Inr isDirectoryCopy, w3) \<Rightarrow>
                    (let st3 = st2\<lparr>world := w3\<rparr> in
                     if isWindows \<and> isDirectoryCopy then
                       (case useWindowsRobocopy sys inputPath outputPath allExcludePatterns verbose st3 of
                          (None, st4) \<Rightarrow> (None, st4)
                        | (Some error, st4) \<Rightarrow>
                            useNodeImplementation sys inputPath outputPath allExcludePatterns verbose
                              (emitIf verbose [RobocopyFailed, ErrorObject error] st4))
                     else
                       useNodeImplementation sys inputPath outputPath allExcludePatterns verbose st3))))"

section \<open>The outcome of a copy, in the words of the specification\<close>

text \<open>
  Section 3 of the specification: the aggregate of one invocation. The sources declare
  no such type; the definitions of this section follow the specification and serve to
  state what the loop of \<open>useNodeImplementation\<close> counts and writes.
\<close>

record copy_outcome =
  attempted :: nat
  succeeded :: nat
  perEntryErrors :: "(string \<times> string) list"

text \<open>
  Section 4.5, one entry: ensure the parent directory, then ensure the directory or copy
  the file; \<open>None\<close> when the entry is copied without error.
\<close>

definition specCopyOne :: "'w system \<Rightarrow> path \<Rightarrow> path \<Rightarrow> string \<Rightarrow> 'w \<Rightarrow> js_error option \<times> 'w" where
  "specCopyOne sys root dest entry w =
     (case fs_ensureDir sys (path_dirname sys (path_join sys dest entry)) w of
        (Some err, w1) \<Rightarrow> (Some err, w1)
      | (None, w1) \<Rightarrow>
          (case fs_stat sys (path_join sys root entry) w1 of
             (Inl err, w2) \<Rightarrow> (Some err, w2)
           | (Inr isDir, w2) \<Rightarrow>
               (if isDir then fs_ensureDir sys (path_join sys dest entry) w2
                else fs_copy sys (path_join sys root entry) (path_join sys dest entry) True w2)))"

fun specCopy :: "'w system \<Rightarrow> path \<Rightarrow> path \<Rightarrow> string list \<Rightarrow> 'w \<Rightarrow> copy_outcome \<times> 'w" where
  "specCopy sys root dest [] w = (\<lparr>attempted = 0, succeeded = 0, perEntryErrors = []\<rparr>, w)"
| "specCopy sys root dest (e # es) w =
     (case specCopyOne sys root dest e w of
        (r, w1) \<Rightarrow>
          (case specCopy sys root dest es w1 of
             (oc, w2) \<Rightarrow>
               (\<lparr>attempted = Suc (attempted oc),
                 succeeded = (case r of None \<Rightarrow> Suc (succeeded oc) | Some err \<Rightarrow> succeeded oc),
                 perEntryErrors =
                   (case r of None \<Rightarrow> perEntryErrors oc
                    | Some err \<Rightarrow> (e, message err) # perEntryErrors oc)\<rparr>, w2)))"

text \<open>The entries and messages of the \<^verbatim>\<open>Failed to copy\<close> lines of a console.\<close>

fun failedLines :: "console_line list \<Rightarrow> (string \<times> string) list" where
  "failedLines [] = []"
| "failedLines (FailedToCopy e m # ls) = (e, m) # failedLines ls"
| "failedLines (l # ls) = failedLines ls"

section \<open>A recording system for concrete runs\<close>

text \<open>
  A system whose world is the list of the calls made so far. A call fails when
  \<open>failure\<close> has a message for it; \<open>isDir\<close> answers \<^verbatim>\<open>isDirectory()\<close>, \<open>entries\<close> is what
  the glob finds, \<open>exitStatus\<close> how the command exits. Paths are joined by a slash and
  resolve to themselves.
\<close>

datatype sys_call =
    Access path
  | EnsureDir path
  | Stat path
  | Copy path path bool
  | Glob path
  | Exec string bool

definition slashJoin :: "path \<Rightarrow> path \<Rightarrow> path" where
  "slashJoin a b = a @ ''/'' @ b"

definition slashDirname :: "path \<Rightarrow> path" where
  "slashDirname p = js_join CHR ''/'' (butlast (js_split CHR ''/'' p))"

definition slashBasename :: "path \<Rightarrow> path" where
  "slashBasename p = last (js_split CHR ''/'' p)"

definition failWith :: "string option \<Rightarrow> js_error option" where
  "failWith r = map_option (\<lambda>m. JsError m StatusUndefined) r"

definition recordingSystem ::
  "(sys_call \<Rightarrow> string option) \<Rightarrow> (path \<Rightarrow> bool) \<Rightarrow> string list \<Rightarrow> nat \<Rightarrow> string \<Rightarrow>
   (string \<Rightarrow> string \<Rightarrow> bool) \<Rightarrow> (sys_call list) system" where
  "recordingSystem failure isDir entries exitStatus platform mm =
     \<lparr>fs_access = (\<lambda>p w. (failWith (failure (Access p)), w @ [Access p])),
      fs_ensureDir = (\<lambda>p w. (failWith (failure (EnsureDir p)), w @ [EnsureDir p])),
      fs_stat = (\<lambda>p w. (case failure (Stat p) of
                           Some m \<Rightarrow> Inl (JsError m StatusUndefined)
                         | None \<Rightarrow> Inr (isDir p), w @ [Stat p])),
      fs_copy = (\<lambda>p q t w. (failWith (failure (Copy p q t)), w @ [Copy p q t])),
      fast_glob = (\<lambda>p w. (case failure (Glob p) of
                             Some m \<Rightarrow> Inl (JsError m StatusUndefined)
                           | None \<Rightarrow> Inr entries, w @ [Glob p])),
      run_command = (\<lambda>c i w. (case failure (Exec c i) of
                                 Some m \<Rightarrow> NotStarted m
                               | None \<Rightarrow> Exited exitStatus, w @ [Exec c i])),
      minimatch = mm,
      path_resolve = (\<lambda>p. p),
      path_resolve2 = slashJoin,
      path_join = slashJoin,
      path_dirname = slashDirname,
      path_basename = slashBasename,
      os_platform = platform\<rparr>"

text \<open>Every call succeeds; \<^verbatim>\<open>in\<close> is a directory holding the given entries, all files.\<close>

definition plainSystem :: "string list \<Rightarrow> (sys_call list) system" where
  "plainSystem entries =
     recordingSystem (\<lambda>c. None) (\<lambda>p. p = ''in'') entries 0 ''linux'' specMinimatch"

text \<open>The file \<^verbatim>\<open>in/b\<close> has vanished when it is read; \<^verbatim>\<open>in/c\<close> is a directory.\<close>

definition vanishedSystem :: "(sys_call list) system" where
  "vanishedSystem =
     recordingSystem (\<lambda>c. if c = Stat ''in/b'' then Some ''ENOENT'' else None)
       (\<lambda>p. p = ''in'' \<or> p = ''in/c'') [''a'', ''b'', ''c'', ''x.log''] 0 ''linux'' specMinimatch"

text \<open>
  The directory \<^verbatim>\<open>out/sub\<close> cannot be created (a file of that name is in the way);
  \<^verbatim>\<open>in/sub\<close> is a directory.
\<close>

definition brokenParentSystem :: "(sys_call list) system" where
  "brokenParentSystem =
     recordingSystem (\<lambda>c. if c = EnsureDir ''out/sub'' then Some ''ENOTDIR'' else None)
       (\<lambda>p. p = ''in'' \<or> p = ''in/sub'') [] 0 ''linux'' specMinimatch"

text \<open>Ninety-eight entries \<^verbatim>\<open>a\<close>, \<^verbatim>\<open>aa\<close>, \<^verbatim>\<open>aaa\<close>, ...\<close>

definition ninetyEight :: "string list" where
  "ninetyEight = map (\<lambda>n. replicate (Suc n) CHR ''a'') [0..<98]"

text \<open>A Windows machine on which the robocopy command exits with status \<open>n\<close>.\<close>

definition windowsSystem :: "nat \<Rightarrow> (sys_call list) system" where
  "windowsSystem n =
     recordingSystem (\<lambda>c. None) (\<lambda>p. p = ''in'') [''a.txt''] n ''win32'' specMinimatch"

text \<open>A Windows machine on which the command of \<^verbatim>\<open>execSync\<close> cannot be started.\<close>

definition spawnFailureSystem :: "(sys_call list) system" where
  "spawnFailureSystem =
     recordingSystem (\<lambda>c. case c of Exec cmd inherit \<Rightarrow> Some ''spawnSync ENOENT'' | _ \<Rightarrow> None)
       (\<lambda>p. p = ''in'') [''a.txt''] 0 ''win32'' specMinimatch"

text \<open>The calls the copy of one entry can make on a recording system.\<close>

definition touched :: "path \<Rightarrow> path \<Rightarrow> string \<Rightarrow> sys_call set" where
  "touched root dest e =
     {EnsureDir (slashDirname (slashJoin dest e)), Stat (slashJoin root e),
      EnsureDir (slashJoin dest e), Copy (slashJoin root e) (slashJoin dest e) True}"

section \<open>Properties of the string operations\<close>

lemma js_split_not_Nil: "js_split sep s \<noteq> []"
  by (induction s) (auto split: list.splits)

lemma js_split_no_sep: "w \<in> set (js_split sep s) \<Longrightarrow> sep \<notin> set w"
  by (induction s arbitrary: w) (auto split: if_splits list.splits)

lemma js_join_split: "js_join sep (js_split sep s) = s"
proof (induction s)
  case Nil
  show ?case by simp
next
  case (Cons c cs)
  then show ?case
    by (cases "js_split sep cs"; cases "tl (js_split sep cs)") (auto simp: js_split_not_Nil)
qed

lemma replaceBackslashes_id: "CHR 0x5C \<notin> set s \<Longrightarrow> replaceBackslashes s = s"
  by (induction s) (auto simp: replaceBackslashes_def)

lemma replaceBackslashes_idem: "replaceBackslashes (replaceBackslashes s) = replaceBackslashes s"
  by (simp add: replaceBackslashes_def)

lemma js_includes_iff: "js_includes s sub \<longleftrightarrow> (\<exists>a b. s = a @ sub @ b)"
proof (induction s)
  case Nil
  show ?case by auto
next
  case (Cons c cs)
  show ?case
  proof
    assume "js_includes (c # cs) sub"
    then consider "prefix sub (c # cs)" | "js_includes cs sub" by auto
    then show "\<exists>a b. c # cs = a @ sub @ b"
    proof cases
      case 1
      then obtain b where "c # cs = sub @ b" by (auto simp: prefix_def)
      then have "c # cs = [] @ sub @ b" by simp
      then show ?thesis by blast
    next
      case 2
      with Cons obtain a b where "cs = a @ sub @ b" by blast
      then have "c # cs = (c # a) @ sub @ b" by simp
      then show ?thesis by blast
    qed
  next
    assume "\<exists>a b. c # cs = a @ sub @ b"
    then obtain a b where ab: "c # cs = a @ sub @ b" by blast
    show "js_includes (c # cs) sub"
    proof (cases a)
      case Nil
      with ab have "prefix sub (c # cs)" by (simp add: prefix_def)
      then show ?thesis by simp
    next
      case (Cons x a')
      with ab have "cs = a' @ sub @ b" by simp
      with Cons.IH show ?thesis by auto
    qed
  qed
qed

lemma js_trim_hd: "js_trim s \<noteq> [] \<Longrightarrow> \<not> isWhitespace (hd (js_trim s))"
proof -
  assume ne: "js_trim s \<noteq> []"
  let ?t = "dropWhile isWhitespace s"
  let ?u = "dropWhile isWhitespace (rev ?t)"
  from ne have u: "?u \<noteq> []" by (simp add: js_trim_def)
  have t: "?t \<noteq> []"
  proof
    assume a: "?t = []"
    have "?u = []" unfolding a by simp
    with u show False by simp
  qed
  have "hd (js_trim s) = last ?u" using u by (simp add: js_trim_def hd_rev)
  also have "\<dots> = last (rev ?t)" using u by (metis last_appendR takeWhile_dropWhile_id)
  also have "\<dots> = hd ?t" using t by (simp add: last_rev)
  finally show ?thesis using t hd_dropWhile by metis
qed

lemma js_trim_last: "js_trim s \<noteq> [] \<Longrightarrow> \<not> isWhitespace (last (js_trim s))"
proof -
  assume ne: "js_trim s \<noteq> []"
  let ?u = "dropWhile isWhitespace (rev (dropWhile isWhitespace s))"
  from ne have u: "?u \<noteq> []" by (simp add: js_trim_def)
  have "last (js_trim s) = hd ?u" using u by (simp add: js_trim_def last_rev)
  then show ?thesis using u hd_dropWhile by metis
qed

lemma set_js_trim: "set (js_trim s) \<subseteq> set s"
  by (auto simp: js_trim_def dest!: set_dropWhileD)

lemma setToArray_aux:
  "distinct acc \<Longrightarrow>
   distinct (foldl (\<lambda>seen x. if x \<in> set seen then seen else seen @ [x]) acc xs) \<and>
   set (foldl (\<lambda>seen x. if x \<in> set seen then seen else seen @ [x]) acc xs) = set acc \<union> set xs"
  by (induction xs arbitrary: acc) auto

lemma distinct_setToArray: "distinct (setToArray xs)"
  using setToArray_aux [of "[]" xs] by (simp add: setToArray_def)

lemma set_setToArray: "set (setToArray xs) = set xs"
  using setToArray_aux [of "[]" xs] by (simp add: setToArray_def)

section \<open>processExcludePatterns\<close>

lemma foldl_pushTrimmed:
  "foldl pushTrimmed acc vs = acc @ filter (\<lambda>p. p \<noteq> []) (map js_trim vs)"
  by (induction vs arbitrary: acc) (simp_all add: pushTrimmed_def Let_def)

lemma foldl_options:
  "foldl (\<lambda>patterns option. foldl pushTrimmed patterns (js_split sep option)) acc opts =
   acc @ concat (map (\<lambda>t. filter (\<lambda>p. p \<noteq> []) (map js_trim (js_split sep t))) opts)"
  by (induction opts arbitrary: acc) (simp_all add: foldl_pushTrimmed)

lemma processExcludePatterns_concat:
  "processExcludePatterns raw =
   concat (map (\<lambda>t. filter (\<lambda>p. p \<noteq> []) (map js_trim (js_split CHR '','' t))) raw)"
  by (simp add: processExcludePatterns_def foldl_options)

lemma processExcludePatterns_elem:
  assumes "p \<in> set (processExcludePatterns raw)"
  shows "p \<noteq> [] \<and> \<not> isWhitespace (hd p) \<and> \<not> isWhitespace (last p) \<and> CHR '','' \<notin> set p"
proof -
  from assms obtain t v where v: "v \<in> set (js_split CHR '','' t)" and p: "p = js_trim v" and ne: "p \<noteq> []"
    by (auto simp: processExcludePatterns_concat)
  have "CHR '','' \<notin> set v" using v by (rule js_split_no_sep)
  then have "CHR '','' \<notin> set p" using set_js_trim [of v] p by auto
  then show ?thesis using ne js_trim_hd [of v] js_trim_last [of v] p by simp
qed

text \<open>
  C7. \<open>processExcludePatterns\<close> splits each token on commas, trims each piece, drops
  the pieces that are empty after trimming and keeps the rest in encounter order; so no
  element of its output is empty, starts or ends with white space or contains a comma,
  and the empty list gives the empty list.
\<close>

theorem processExcludePatterns_normalizes:
  "processExcludePatterns raw =
     concat (map (\<lambda>t. filter (\<lambda>p. p \<noteq> []) (map js_trim (js_split CHR '','' t))) raw) \<and>
   (\<forall>p \<in> set (processExcludePatterns raw).
      p \<noteq> [] \<and> \<not> isWhitespace (hd p) \<and> \<not> isWhitespace (last p) \<and> CHR '','' \<notin> set p) \<and>
   processExcludePatterns [] = []"
  using processExcludePatterns_concat [of raw] processExcludePatterns_elem [of _ raw]
  by (simp add: processExcludePatterns_def)

theorem processExcludePatterns_normalizes_witness:
  "processExcludePatterns [''pattern1,,pattern2'', '','', '' '', '' a b , c''] =
     [''pattern1'', ''pattern2'', ''a b'', ''c''] \<and>
   ''a b'' \<in> set (processExcludePatterns [''pattern1,,pattern2'', '','', '' '', '' a b , c'']) \<and>
   \<not> isWhitespace (hd ''a b'') \<and> \<not> isWhitespace (last ''a b'')"
proof -
  have e: "processExcludePatterns [''pattern1,,pattern2'', '','', '' '', '' a b , c''] =
     [''pattern1'', ''pattern2'', ''a b'', ''c'']"
    by (simp add: processExcludePatterns_def pushTrimmed_def js_trim_def isWhitespace_def)
  then have m: "''a b'' \<in> set (processExcludePatterns [''pattern1,,pattern2'', '','', '' '', '' a b , c''])"
    by simp
  with processExcludePatterns_normalizes [of "[''pattern1,,pattern2'', '','', '' '', '' a b , c'']"]
  have "\<not> isWhitespace (hd ''a b'') \<and> \<not> isWhitespace (last ''a b'')"
    by blast
  with e m show ?thesis by simp
qed

section \<open>processExcludePatternsForRobocopy\<close>

lemma classifyPattern_dir_mono:
  "set (dirExcludes acc) \<subseteq> set (dirExcludes (classifyPattern acc p))"
  by (auto simp: classifyPattern_def Let_def)

lemma foldl_classifyPattern_dir_mono:
  "set (dirExcludes acc) \<subseteq> set (dirExcludes (foldl classifyPattern acc ps))"
proof (induction ps arbitrary: acc)
  case Nil
  show ?case by simp
next
  case (Cons p ps)
  show ?case
    using classifyPattern_dir_mono [of acc p] Cons [of "classifyPattern acc p"] by auto
qed

lemma classifyPattern_globstar:
  "endsWith (replaceBackslashes p) ''/**'' \<Longrightarrow>
   classifyPattern acc p =
     acc\<lparr>dirExcludes := dirExcludes acc @
       [take (length (replaceBackslashes p) - 3) (replaceBackslashes p)]\<rparr>"
  by (simp add: classifyPattern_def Let_def)

lemma classifyPattern_strip:
  assumes "replaceBackslashes p = q @ ''/**''"
  shows "q \<in> set (dirExcludes (classifyPattern acc p))"
proof -
  have "endsWith (replaceBackslashes p) ''/**''"
    using assms by (simp add: endsWith_def suffix_def)
  then show ?thesis
    using assms by (simp add: classifyPattern_globstar)
qed

lemma foldl_classifyPattern_strip:
  "p \<in> set ps \<Longrightarrow> replaceBackslashes p = q @ ''/**'' \<Longrightarrow>
   q \<in> set (dirExcludes (foldl classifyPattern acc ps))"
proof (induction ps arbitrary: acc)
  case Nil
  then show ?case by simp
next
  case (Cons a ps)
  show ?case
  proof (cases "a = p")
    case True
    have "q \<in> set (dirExcludes (classifyPattern acc a))"
      using True Cons.prems(2) by (simp add: classifyPattern_strip)
    then show ?thesis
      using foldl_classifyPattern_dir_mono [of "classifyPattern acc a" ps] by auto
  next
    case False
    with Cons.prems have "p \<in> set ps" by simp
    then show ?thesis using Cons.IH Cons.prems(2) by simp
  qed
qed

lemma pushIfSome_mono: "set dirs \<subseteq> set (pushIfSome ps needle name dirs)"
  by (auto simp: pushIfSome_def)

lemma pushIfSome_hit:
  "\<exists>p\<in>set ps. js_includes p needle \<Longrightarrow> name \<in> set (pushIfSome ps needle name dirs)"
  by (auto simp: pushIfSome_def list_ex_iff)

lemma pushIfSome_dropped:
  "\<not> js_includes p needle \<Longrightarrow>
   pushIfSome (ps @ p # qs) needle name dirs = pushIfSome (ps @ qs) needle name dirs"
  by (simp add: pushIfSome_def)

lemma fileExcludes_plan:
  "fileExcludes (processExcludePatternsForRobocopy ps) =
   setToArray (fileExcludes (foldl classifyPattern \<lparr>dirExcludes = [], fileExcludes = []\<rparr> ps))"
  by (simp add: processExcludePatternsForRobocopy_def Let_def)

lemma dirExcludes_plan:
  "dirExcludes (processExcludePatternsForRobocopy ps) =
   setToArray (pushIfSome ps ''.git'' ''.git'' (pushIfSome ps ''build/'' ''build''
     (pushIfSome ps ''dist/'' ''dist'' (pushIfSome ps ''node_modules'' ''node_modules''
       (dirExcludes (foldl classifyPattern \<lparr>dirExcludes = [], fileExcludes = []\<rparr> ps))))))"
  by (simp add: processExcludePatternsForRobocopy_def Let_def)

lemma set_dirExcludes_plan:
  "set (dirExcludes (processExcludePatternsForRobocopy ps)) =
   set (pushIfSome ps ''.git'' ''.git'' (pushIfSome ps ''build/'' ''build''
     (pushIfSome ps ''dist/'' ''dist'' (pushIfSome ps ''node_modules'' ''node_modules''
       (dirExcludes (foldl classifyPattern \<lparr>dirExcludes = [], fileExcludes = []\<rparr> ps))))))"
  by (simp add: dirExcludes_plan set_setToArray)

lemma plan_strip:
  assumes "p \<in> set ps" "replaceBackslashes p = q @ ''/**''"
  shows "q \<in> set (dirExcludes (processExcludePatternsForRobocopy ps))"
  unfolding set_dirExcludes_plan
  using foldl_classifyPattern_strip [OF assms, of "\<lparr>dirExcludes = [], fileExcludes = []\<rparr>"]
    pushIfSome_mono by blast

lemmas plan_eval =
  processExcludePatternsForRobocopy_def Let_def classifyPattern_def endsWith_def
  replaceBackslashes_def replaceQuestion_def pushIfSome_def setToArray_def suffix_def

text \<open>
  C5. For every pattern of the list that, with its backslashes turned into slashes,
  ends in \<^verbatim>\<open>/**\<close>, the rest of the pattern before that suffix is in \<open>dirExcludes\<close>; for
  the list holding only \<^verbatim>\<open>node_modules/**\<close>, \<open>dirExcludes\<close> contains \<^verbatim>\<open>node_modules\<close>.
\<close>

theorem globstar_suffix_to_dirExcludes:
  "(\<forall>p \<in> set ps. \<forall>q. replaceBackslashes p = q @ ''/**'' \<longrightarrow>
      q \<in> set (dirExcludes (processExcludePatternsForRobocopy ps))) \<and>
   ''node_modules'' \<in> set (dirExcludes (processExcludePatternsForRobocopy [''node_modules/**'']))"
proof -
  have "replaceBackslashes ''node_modules/**'' = ''node_modules'' @ ''/**''"
    by (simp add: replaceBackslashes_def)
  then have "''node_modules'' \<in> set (dirExcludes (processExcludePatternsForRobocopy [''node_modules/**'']))"
    by (intro plan_strip [of "''node_modules/**''"]) simp_all
  then show ?thesis using plan_strip by blast
qed

theorem globstar_suffix_to_dirExcludes_witness:
  "''src/gen/**'' \<in> set [''*.log'', ''src/gen/**''] \<and>
   replaceBackslashes ''src/gen/**'' = ''src/gen'' @ ''/**'' \<and>
   ''src/gen'' \<in> set (dirExcludes (processExcludePatternsForRobocopy [''*.log'', ''src/gen/**''])) \<and>
   processExcludePatternsForRobocopy [''*.log'', ''src/gen/**''] =
     \<lparr>dirExcludes = [''src/gen''], fileExcludes = [''*.log'']\<rparr>"
proof -
  have a: "''src/gen/**'' \<in> set [''*.log'', ''src/gen/**'']" by simp
  have b: "replaceBackslashes ''src/gen/**'' = ''src/gen'' @ ''/**''"
    by (simp add: replaceBackslashes_def)
  from globstar_suffix_to_dirExcludes [of "[''*.log'', ''src/gen/**'']"] a b
  have c: "''src/gen'' \<in> set (dirExcludes (processExcludePatternsForRobocopy [''*.log'', ''src/gen/**'']))"
    by blast
  have d: "processExcludePatternsForRobocopy [''*.log'', ''src/gen/**''] =
     \<lparr>dirExcludes = [''src/gen''], fileExcludes = [''*.log'']\<rparr>"
    by (simp add: plan_eval)
  from a b c d show ?thesis by simp
qed

text \<open>
  C6. When some pattern of the list contains \<^verbatim>\<open>node_modules\<close>, \<^verbatim>\<open>dist/\<close>, \<^verbatim>\<open>build/\<close> or
  \<^verbatim>\<open>.git\<close>, the bare name \<^verbatim>\<open>node_modules\<close>, \<^verbatim>\<open>dist\<close>, \<^verbatim>\<open>build\<close> or \<^verbatim>\<open>.git\<close> is in
  \<open>dirExcludes\<close>, whatever the loop did with that pattern; and neither returned list has
  an element twice.
\<close>

theorem safety_nets_and_dedup:
  "((\<exists>p\<in>set ps. js_includes p ''node_modules'') \<longrightarrow>
      ''node_modules'' \<in> set (dirExcludes (processExcludePatternsForRobocopy ps))) \<and>
   ((\<exists>p\<in>set ps. js_includes p ''dist/'') \<longrightarrow>
      ''dist'' \<in> set (dirExcludes (processExcludePatternsForRobocopy ps))) \<and>
   ((\<exists>p\<in>set ps. js_includes p ''build/'') \<longrightarrow>
      ''build'' \<in> set (dirExcludes (processExcludePatternsForRobocopy ps))) \<and>
   ((\<exists>p\<in>set ps. js_includes p ''.git'') \<longrightarrow>
      ''.git'' \<in> set (dirExcludes (processExcludePatternsForRobocopy ps))) \<and>
   distinct (dirExcludes (processExcludePatternsForRobocopy ps)) \<and>
   distinct (fileExcludes (processExcludePatternsForRobocopy ps))"
proof -
  let ?d0 = "dirExcludes (foldl classifyPattern \<lparr>dirExcludes = [], fileExcludes = []\<rparr> ps)"
  let ?d1 = "pushIfSome ps ''node_modules'' ''node_modules'' ?d0"
  let ?d2 = "pushIfSome ps ''dist/'' ''dist'' ?d1"
  let ?d3 = "pushIfSome ps ''build/'' ''build'' ?d2"
  let ?d4 = "pushIfSome ps ''.git'' ''.git'' ?d3"
  have s: "set (dirExcludes (processExcludePatternsForRobocopy ps)) = set ?d4"
    by (rule set_dirExcludes_plan)
  have m2: "set ?d1 \<subseteq> set ?d2" and m3: "set ?d2 \<subseteq> set ?d3" and m4: "set ?d3 \<subseteq> set ?d4"
    by (rule pushIfSome_mono)+
  have n: "''node_modules'' \<in> set ?d4" if "\<exists>p\<in>set ps. js_includes p ''node_modules''"
    using pushIfSome_hit [OF that, of "''node_modules''" ?d0] m2 m3 m4 by blast
  have d: "''dist'' \<in> set ?d4" if "\<exists>p\<in>set ps. js_includes p ''dist/''"
    using pushIfSome_hit [OF that, of "''dist''" ?d1] m3 m4 by blast
  have b: "''build'' \<in> set ?d4" if "\<exists>p\<in>set ps. js_includes p ''build/''"
    using pushIfSome_hit [OF that, of "''build''" ?d2] m4 by blast
  have g: "''.git'' \<in> set ?d4" if "\<exists>p\<in>set ps. js_includes p ''.git''"
    using pushIfSome_hit [OF that, of "''.git''" ?d3] by blast
  have dd: "distinct (dirExcludes (processExcludePatternsForRobocopy ps))"
    unfolding dirExcludes_plan by (rule distinct_setToArray)
  have df: "distinct (fileExcludes (processExcludePatternsForRobocopy ps))"
    unfolding fileExcludes_plan by (rule distinct_setToArray)
  show ?thesis unfolding s using n d b g dd df by blast
qed

theorem safety_nets_and_dedup_witness:
  "js_includes ''dist/*.js'' ''dist/'' \<and>
   processExcludePatternsForRobocopy [''dist/*.js'', ''dist/*.js''] =
     \<lparr>dirExcludes = [''dist''], fileExcludes = []\<rparr> \<and>
   ''dist'' \<in> set (dirExcludes (processExcludePatternsForRobocopy [''dist/*.js'', ''dist/*.js'']))"
proof -
  have a: "js_includes ''dist/*.js'' ''dist/''" by simp
  have e: "processExcludePatternsForRobocopy [''dist/*.js'', ''dist/*.js''] =
     \<lparr>dirExcludes = [''dist''], fileExcludes = []\<rparr>"
    by (simp add: plan_eval)
  from a have "\<exists>p\<in>set [''dist/*.js'', ''dist/*.js'']. js_includes p ''dist/''" by simp
  with safety_nets_and_dedup [of "[''dist/*.js'', ''dist/*.js'']"]
  have "''dist'' \<in> set (dirExcludes (processExcludePatternsForRobocopy [''dist/*.js'', ''dist/*.js'']))"
    by blast
  with a e show ?thesis by simp
qed

text \<open>
  C10. A pattern that, with its backslashes turned into slashes, contains a slash, does
  not end in \<^verbatim>\<open>/**\<close> and has a star in its last segment leaves both arrays of the loop
  as they are: the file exclusions of the plan are those of the list without the
  pattern, and when the pattern contains none of \<^verbatim>\<open>node_modules\<close>, \<^verbatim>\<open>dist/\<close>, \<^verbatim>\<open>build/\<close>
  and \<^verbatim>\<open>.git\<close> the whole plan is that of the list without the pattern.
\<close>

theorem slash_wildcard_pattern_dropped:
  assumes "js_includes (replaceBackslashes p) ''/''"
      and "\<not> endsWith (replaceBackslashes p) ''/**''"
      and "js_includes (last (js_split CHR ''/'' (replaceBackslashes p))) ''*''"
  shows "classifyPattern acc p = acc \<and>
     fileExcludes (processExcludePatternsForRobocopy (ps @ p # qs)) =
       fileExcludes (processExcludePatternsForRobocopy (ps @ qs)) \<and>
     (\<not> js_includes p ''node_modules'' \<and> \<not> js_includes p ''dist/'' \<and>
      \<not> js_includes p ''build/'' \<and> \<not> js_includes p ''.git'' \<longrightarrow>
      processExcludePatternsForRobocopy (ps @ p # qs) = processExcludePatternsForRobocopy (ps @ qs))"
proof -
  have step: "classifyPattern a p = a" for a
    using assms by (simp add: classifyPattern_def Let_def)
  have loop: "foldl classifyPattern a (ps @ p # qs) = foldl classifyPattern a (ps @ qs)" for a
    by (simp add: step)
  have files: "fileExcludes (processExcludePatternsForRobocopy (ps @ p # qs)) =
       fileExcludes (processExcludePatternsForRobocopy (ps @ qs))"
    unfolding fileExcludes_plan loop ..
  have dirs: "dirExcludes (processExcludePatternsForRobocopy (ps @ p # qs)) =
       dirExcludes (processExcludePatternsForRobocopy (ps @ qs))"
    if "\<not> js_includes p ''node_modules''" "\<not> js_includes p ''dist/''"
       "\<not> js_includes p ''build/''" "\<not> js_includes p ''.git''"
    unfolding dirExcludes_plan loop
    by (simp only: pushIfSome_dropped [OF that(1)] pushIfSome_dropped [OF that(2)]
          pushIfSome_dropped [OF that(3)] pushIfSome_dropped [OF that(4)])
  show ?thesis using step files dirs by simp
qed

theorem slash_wildcard_pattern_dropped_witness:
  "js_includes (replaceBackslashes ''src/*.ts'') ''/'' \<and>
   \<not> endsWith (replaceBackslashes ''src/*.ts'') ''/**'' \<and>
   js_includes (last (js_split CHR ''/'' (replaceBackslashes ''src/*.ts''))) ''*'' \<and>
   \<not> js_includes ''src/*.ts'' ''node_modules'' \<and> \<not> js_includes ''src/*.ts'' ''dist/'' \<and>
   \<not> js_includes ''src/*.ts'' ''build/'' \<and> \<not> js_includes ''src/*.ts'' ''.git'' \<and>
   processExcludePatternsForRobocopy [''*.log'', ''src/*.ts''] =
     \<lparr>dirExcludes = [], fileExcludes = [''*.log'']\<rparr>"
proof -
  have a: "js_includes (replaceBackslashes ''src/*.ts'') ''/''"
    by (simp add: replaceBackslashes_def)
  have b: "\<not> endsWith (replaceBackslashes ''src/*.ts'') ''/**''"
    by (simp add: replaceBackslashes_def endsWith_def suffix_def)
  have c: "js_includes (last (js_split CHR ''/'' (replaceBackslashes ''src/*.ts''))) ''*''"
    by (simp add: replaceBackslashes_def)
  have d: "\<not> js_includes ''src/*.ts'' ''node_modules'' \<and> \<not> js_includes ''src/*.ts'' ''dist/'' \<and>
   \<not> js_includes ''src/*.ts'' ''build/'' \<and> \<not> js_includes ''src/*.ts'' ''.git''"
    by simp
  have e: "processExcludePatternsForRobocopy ([''*.log''] @ []) =
     \<lparr>dirExcludes = [], fileExcludes = [''*.log'']\<rparr>"
    by (simp add: plan_eval)
  from slash_wildcard_pattern_dropped
         [OF a b c, of "\<lparr>dirExcludes = [], fileExcludes = []\<rparr>" "[''*.log'']" "[]"] d e
  have "processExcludePatternsForRobocopy ([''*.log''] @ [''src/*.ts'']) =
     \<lparr>dirExcludes = [], fileExcludes = [''*.log'']\<rparr>" by simp
  with a b c d show ?thesis by simp
qed

section \<open>shouldExclude\<close>

text \<open>
  C9. Whatever the matcher, \<open>shouldExclude\<close> gives the same answer when the
  backslashes of the path, of the patterns, or of both are replaced by forward slashes.
\<close>

theorem shouldExclude_separator_invariant:
  "shouldExclude mm (replaceBackslashes p) ps = shouldExclude mm p ps \<and>
   shouldExclude mm p (map replaceBackslashes ps) = shouldExclude mm p ps \<and>
   shouldExclude mm (replaceBackslashes p) (map replaceBackslashes ps) = shouldExclude mm p ps"
  by (simp add: shouldExclude_def Let_def replaceBackslashes_idem list_ex_iff)

lemma globMatch_globstar: "globMatch ''**'' s"
  by (induction s) simp_all

text \<open>
  C3. With the matcher of the specification, every non-empty path is excluded by the
  pattern list holding only \<^verbatim>\<open>**\<close>; the path may start with a dot or lie under a
  directory whose name starts with a dot.
\<close>

theorem globstar_excludes_everything:
  "x \<noteq> [] \<Longrightarrow> shouldExclude specMinimatch x [''**'']"
proof -
  have "replaceBackslashes ''**'' = ''**''" by (simp add: replaceBackslashes_def)
  then show ?thesis
    by (simp add: shouldExclude_def specMinimatch_def Let_def globMatch_globstar del: globMatch.simps)
qed

theorem globstar_excludes_everything_witness:
  "''.git/.hidden'' \<noteq> [] \<and> shouldExclude specMinimatch ''.git/.hidden'' [''**'']"
  using globstar_excludes_everything [of "''.git/.hidden''"] by simp

section \<open>Concrete runs on the recording system\<close>

lemmas recording_eval =
  recordingSystem_def failWith_def slashJoin_def slashDirname_def slashBasename_def
  emitIf_def emit_def

lemmas run_eval =
  useNodeImplementation_def copyEntry_def shouldExclude_def specMinimatch_def specCopyOne_def
  Let_def recordingSystem_def failWith_def slashJoin_def slashDirname_def slashBasename_def
  emitIf_def emit_def replaceBackslashes_def

lemmas files_eval =
  copyFiles_def useWindowsRobocopy_def execSync_def acceleratorExit_def plan_eval

section \<open>A single file\<close>

lemma emitIf_world_update [simp]:
  "(emitIf b ls (s\<lparr>world := w\<rparr>))\<lparr>world := w'\<rparr> = (emitIf b ls s)\<lparr>world := w'\<rparr>"
  by (simp add: emitIf_def emit_def)

lemma world_emit [simp]: "world (emit ls st) = world st"
  by (simp add: emit_def)

lemma world_emitIf [simp]: "world (emitIf b ls st) = world st"
  by (simp add: emitIf_def)

lemma useNodeImplementation_single_file:
  assumes "fs_stat sys inputPath (world st) = (Inr False, w1)"
  shows "(shouldExclude (minimatch sys) (path_basename sys inputPath) pats \<longrightarrow>
            useNodeImplementation sys inputPath outputPath pats verbose st =
              (None, emitIf verbose [SkippingExcluded (path_basename sys inputPath)] (st\<lparr>world := w1\<rparr>))) \<and>
         (\<not> shouldExclude (minimatch sys) (path_basename sys inputPath) pats \<longrightarrow>
            useNodeImplementation sys inputPath outputPath pats verbose st =
              (case fs_copy sys inputPath
                      (path_resolve2 sys outputPath (path_basename sys inputPath)) False w1 of
                 (Some err, w2) \<Rightarrow> (Some err, st\<lparr>world := w2\<rparr>)
               | (None, w2) \<Rightarrow>
                   (None, emitIf verbose [CopiedFile (path_basename sys inputPath)] (st\<lparr>world := w2\<rparr>))))"
  using assms by (simp add: useNodeImplementation_def Let_def)

text \<open>
  C8, as the code has it. When the input path exists, the output directory can be
  ensured and \<^verbatim>\<open>stat\<close> says, both in \<open>copyFiles\<close> and in \<open>useNodeImplementation\<close>, that the
  input path is not a directory, the run of \<open>copyFiles\<close> asks the matcher about the base
  name of the path only, with the effective pattern list. If the base name is excluded,
  the run ends without an error, makes no further call on the file system and writes
  only the skip line of verbose mode; it returns no value. Otherwise the one further
  call is the copy of the input path to \<^verbatim>\<open>path.resolve(outputPath, basename)\<close>, and the
  error of that copy, if any, is the error of the run.
\<close>

theorem single_file_run:
  assumes "fs_access sys inputPath (world st) = (None, w1)"
      and "fs_ensureDir sys outputPath w1 = (None, w2)"
      and "fs_stat sys inputPath w2 = (Inr False, w3)"
      and "fs_stat sys inputPath w3 = (Inr False, w4)"
      and "pats = (if opt_ignoreDefaults options then opt_excludePatterns options
                   else DEFAULT_EXCLUDE_PATTERNS @ opt_excludePatterns options)"
      and "st3 = emitIf (opt_verbose options \<and> length pats > 0)
                    (ExcludingPatterns # map ListItem pats)
                    (emitIf (opt_verbose options) [CopyingFrom inputPath, CopyingTo outputPath] st)"
  shows "(shouldExclude (minimatch sys) (path_basename sys inputPath) pats \<longrightarrow>
            copyFiles sys inputPath outputPath options st =
              (None, emitIf (opt_verbose options) [SkippingExcluded (path_basename sys inputPath)]
                       (st3\<lparr>world := w4\<rparr>))) \<and>
         (\<not> shouldExclude (minimatch sys) (path_basename sys inputPath) pats \<longrightarrow>
            copyFiles sys inputPath outputPath options st =
              (case fs_copy sys inputPath
                      (path_resolve2 sys outputPath (path_basename sys inputPath)) False w4 of
                 (Some err, w5) \<Rightarrow> (Some err, st3\<lparr>world := w5\<rparr>)
               | (None, w5) \<Rightarrow>
                   (None, emitIf (opt_verbose options) [CopiedFile (path_basename sys inputPath)]
                            (st3\<lparr>world := w5\<rparr>))))"
proof -
  let ?v = "opt_verbose options"
  have run: "copyFiles sys inputPath outputPath options st =
      useNodeImplementation sys inputPath outputPath pats ?v (st3\<lparr>world := w3\<rparr>)"
    using assms(1-3) unfolding assms(5,6)
    by (simp add: copyFiles_def Let_def)
  have stat: "fs_stat sys inputPath (world (st3\<lparr>world := w3\<rparr>)) = (Inr False, w4)"
    using assms(4) by simp
  from useNodeImplementation_single_file [OF stat, of pats outputPath ?v]
  show ?thesis unfolding run by (auto split: prod.splits option.splits)
qed

theorem single_file_run_witness:
  "fs_access (plainSystem []) ''in/x.log'' [] = (None, [Access ''in/x.log'']) \<and>
   fs_ensureDir (plainSystem []) ''out'' [Access ''in/x.log''] =
     (None, [Access ''in/x.log'', EnsureDir ''out'']) \<and>
   fs_stat (plainSystem []) ''in/x.log'' [Access ''in/x.log'', EnsureDir ''out''] =
     (Inr False, [Access ''in/x.log'', EnsureDir ''out'', Stat ''in/x.log'']) \<and>
   fs_stat (plainSystem []) ''in/x.log'' [Access ''in/x.log'', EnsureDir ''out'', Stat ''in/x.log''] =
     (Inr False, [Access ''in/x.log'', EnsureDir ''out'', Stat ''in/x.log'', Stat ''in/x.log'']) \<and>
   shouldExclude (minimatch (plainSystem [])) (path_basename (plainSystem []) ''in/x.log'') [''*.log''] \<and>
   copyFiles (plainSystem []) ''in/x.log'' ''out''
       \<lparr>opt_excludePatterns = [''*.log''], opt_ignoreDefaults = True, opt_verbose = False\<rparr>
       \<lparr>world = [], console = []\<rparr> =
     (None, \<lparr>world = [Access ''in/x.log'', EnsureDir ''out'', Stat ''in/x.log'', Stat ''in/x.log''],
              console = []\<rparr>) \<and>
   \<not> shouldExclude (minimatch (plainSystem [])) (path_basename (plainSystem []) ''in/a.txt'') [''*.log''] \<and>
   copyFiles (plainSystem []) ''in/a.txt'' ''out''
       \<lparr>opt_excludePatterns = [''*.log''], opt_ignoreDefaults = True, opt_verbose = False\<rparr>
       \<lparr>world = [], console = []\<rparr> =
     (None, \<lparr>world = [Access ''in/a.txt'', EnsureDir ''out'', Stat ''in/a.txt'', Stat ''in/a.txt'',
                       Copy ''in/a.txt'' ''out/a.txt'' False],
              console = []\<rparr>)"
proof -
  let ?S = "plainSystem []"
  let ?opts = "\<lparr>opt_excludePatterns = [''*.log''], opt_ignoreDefaults = True, opt_verbose = False\<rparr>"
  let ?st = "\<lparr>world = ([] :: sys_call list), console = []\<rparr>"
  have h5: "[''*.log''] = (if opt_ignoreDefaults ?opts then opt_excludePatterns ?opts
                   else DEFAULT_EXCLUDE_PATTERNS @ opt_excludePatterns ?opts)"
    by simp
  have h6: "?st = emitIf (opt_verbose ?opts \<and> length [''*.log''] > 0)
                    (ExcludingPatterns # map ListItem [''*.log''])
                    (emitIf (opt_verbose ?opts) [CopyingFrom p, CopyingTo ''out''] ?st)" for p
    by (simp add: emitIf_def)
  have a1: "fs_access ?S ''in/x.log'' (world ?st) = (None, [Access ''in/x.log''])"
    by (simp add: plainSystem_def recordingSystem_def failWith_def)
  have a2: "fs_ensureDir ?S ''out'' [Access ''in/x.log''] = (None, [Access ''in/x.log'', EnsureDir ''out''])"
    by (simp add: plainSystem_def recordingSystem_def failWith_def)
  have a3: "fs_stat ?S ''in/x.log'' [Access ''in/x.log'', EnsureDir ''out''] =
     (Inr False, [Access ''in/x.log'', EnsureDir ''out'', Stat ''in/x.log''])"
    by (simp add: plainSystem_def recordingSystem_def)
  have a4: "fs_stat ?S ''in/x.log'' [Access ''in/x.log'', EnsureDir ''out'', Stat ''in/x.log''] =
     (Inr False, [Access ''in/x.log'', EnsureDir ''out'', Stat ''in/x.log'', Stat ''in/x.log''])"
    by (simp add: plainSystem_def recordingSystem_def)
  have x1: "shouldExclude (minimatch ?S) (path_basename ?S ''in/x.log'') [''*.log'']"
    by (simp add: plainSystem_def run_eval)
  from single_file_run [OF a1 a2 a3 a4 h5 h6] x1
  have r1: "copyFiles ?S ''in/x.log'' ''out'' ?opts ?st =
     (None, \<lparr>world = [Access ''in/x.log'', EnsureDir ''out'', Stat ''in/x.log'', Stat ''in/x.log''],
              console = []\<rparr>)"
    by (simp add: emitIf_def)
  have b1: "fs_access ?S ''in/a.txt'' (world ?st) = (None, [Access ''in/a.txt''])"
    by (simp add: plainSystem_def recordingSystem_def failWith_def)
  have b2: "fs_ensureDir ?S ''out'' [Access ''in/a.txt''] = (None, [Access ''in/a.txt'', EnsureDir ''out''])"
    by (simp add: plainSystem_def recordingSystem_def failWith_def)
  have b3: "fs_stat ?S ''in/a.txt'' [Access ''in/a.txt'', EnsureDir ''out''] =
     (Inr False, [Access ''in/a.txt'', EnsureDir ''out'', Stat ''in/a.txt''])"
    by (simp add: plainSystem_def recordingSystem_def)
  have b4: "fs_stat ?S ''in/a.txt'' [Access ''in/a.txt'', EnsureDir ''out'', Stat ''in/a.txt''] =
     (Inr False, [Access ''in/a.txt'', EnsureDir ''out'', Stat ''in/a.txt'', Stat ''in/a.txt''])"
    by (simp add: plainSystem_def recordingSystem_def)
  have x2: "\<not> shouldExclude (minimatch ?S) (path_basename ?S ''in/a.txt'') [''*.log'']"
    by (simp add: plainSystem_def run_eval)
  have c2: "fs_copy ?S ''in/a.txt'' (path_resolve2 ?S ''out'' (path_basename ?S ''in/a.txt'')) False
              [Access ''in/a.txt'', EnsureDir ''out'', Stat ''in/a.txt'', Stat ''in/a.txt''] =
            (None, [Access ''in/a.txt'', EnsureDir ''out'', Stat ''in/a.txt'', Stat ''in/a.txt'',
                    Copy ''in/a.txt'' ''out/a.txt'' False])"
    by (simp add: plainSystem_def recording_eval)
  from single_file_run [OF b1 b2 b3 b4 h5 h6] x2
  have r2: "copyFiles ?S ''in/a.txt'' ''out'' ?opts ?st =
     (None, \<lparr>world = [Access ''in/a.txt'', EnsureDir ''out'', Stat ''in/a.txt'', Stat ''in/a.txt'',
                       Copy ''in/a.txt'' ''out/a.txt'' False],
              console = []\<rparr>)"
    by (simp add: c2 emitIf_def)
  from a1 have a1': "fs_access ?S ''in/x.log'' [] = (None, [Access ''in/x.log''])" by simp
  show ?thesis
    by (intro conjI) (rule a1' a2 a3 a4 x1 r1 x2 r2)+
qed

text \<open>
  C8, as the specification states it, fails in one part: the run returns no outcome.
  Without verbose mode the run that skips an excluded file and the run that copies a
  file return the same value and write the same (empty) console, so nothing returned
  or written says zero attempted and zero succeeded for the first and anything else
  for the second.
\<close>

theorem no_outcome_for_single_file:
  "\<not> (\<exists>outcomeOf :: js_error option \<times> console_line list \<Rightarrow> nat \<times> nat.
        outcomeOf
          (fst (copyFiles (plainSystem []) ''in/x.log'' ''out''
                  \<lparr>opt_excludePatterns = [''*.log''], opt_ignoreDefaults = True, opt_verbose = False\<rparr>
                  \<lparr>world = [], console = []\<rparr>),
           console (snd (copyFiles (plainSystem []) ''in/x.log'' ''out''
                  \<lparr>opt_excludePatterns = [''*.log''], opt_ignoreDefaults = True, opt_verbose = False\<rparr>
                  \<lparr>world = [], console = []\<rparr>))) = (0, 0) \<and>
        outcomeOf
          (fst (copyFiles (plainSystem []) ''in/a.txt'' ''out''
                  \<lparr>opt_excludePatterns = [''*.log''], opt_ignoreDefaults = True, opt_verbose = False\<rparr>
                  \<lparr>world = [], console = []\<rparr>),
           console (snd (copyFiles (plainSystem []) ''in/a.txt'' ''out''
                  \<lparr>opt_excludePatterns = [''*.log''], opt_ignoreDefaults = True, opt_verbose = False\<rparr>
                  \<lparr>world = [], console = []\<rparr>))) \<noteq> (0, 0))"
proof -
  let ?opts = "\<lparr>opt_excludePatterns = [''*.log''], opt_ignoreDefaults = True, opt_verbose = False\<rparr>"
  let ?st = "\<lparr>world = ([] :: sys_call list), console = []\<rparr>"
  have skip: "copyFiles (plainSystem []) ''in/x.log'' ''out'' ?opts ?st =
     (None, \<lparr>world = [Access ''in/x.log'', EnsureDir ''out'', Stat ''in/x.log'', Stat ''in/x.log''],
              console = []\<rparr>)"
    by (simp add: plainSystem_def files_eval run_eval)
  have copy: "copyFiles (plainSystem []) ''in/a.txt'' ''out'' ?opts ?st =
     (None, \<lparr>world = [Access ''in/a.txt'', EnsureDir ''out'', Stat ''in/a.txt'', Stat ''in/a.txt'',
                       Copy ''in/a.txt'' ''out/a.txt'' False],
              console = []\<rparr>)"
    by (simp add: plainSystem_def files_eval run_eval)
  show ?thesis unfolding skip copy by simp
qed

section \<open>useNodeImplementation: the loop over the batches\<close>

lemma failedLines_append: "failedLines (xs @ ys) = failedLines xs @ failedLines ys"
  by (induction xs rule: failedLines.induct) simp_all

lemma promiseAll_append:
  "promiseAll f (xs @ ys) s =
     (case promiseAll f xs s of
        (r, s1) \<Rightarrow>
          (case promiseAll f ys s1 of
             (r', s2) \<Rightarrow> ((case r of Some err \<Rightarrow> Some err | None \<Rightarrow> r'), s2)))"
  by (induction xs arbitrary: s) (auto split: prod.splits option.splits)

lemma promiseAll_Cons_None:
  assumes "promiseAll f (x # xs) s = (None, s')"
  obtains s1 where "f x s = (None, s1)" and "promiseAll f xs s1 = (None, s')"
  using assms by (auto split: prod.splits option.splits)

lemma promiseAll_first_rejects:
  "fst (f x s) = Some err \<Longrightarrow> fst (promiseAll f (x # xs) s) = Some err"
  by (auto split: prod.splits option.splits)

lemma copyLoop_resolved:
  "copyLoop sys root dest verbose es i cs = (None, cs') \<Longrightarrow>
   promiseAll (copyEntry sys root dest verbose) (drop i es) cs = (None, cs')"
proof (induction sys root dest verbose es i cs rule: copyLoop.induct)
  case (1 sys root dest verbose es i cs)
  show ?case
  proof (cases "i < length es")
    case False
    with "1.prems" show ?thesis by (subst (asm) copyLoop.simps) simp
  next
    case True
    let ?f = "copyEntry sys root dest verbose"
    let ?batch = "js_slice es i (i + BATCH_SIZE)"
    obtain r cs1 where b: "promiseAll ?f ?batch cs = (r, cs1)" by (cases "promiseAll ?f ?batch cs")
    have unfold: "copyLoop sys root dest verbose es i cs =
        (case r of Some err \<Rightarrow> (Some err, cs1)
         | None \<Rightarrow> copyLoop sys root dest verbose es (i + BATCH_SIZE) cs1)"
      using True b by (subst copyLoop.simps) (simp add: Let_def split: option.splits)
    have r: "r = None"
      using "1.prems" unfold by (cases r) simp_all
    from unfold r "1.prems" have rest: "copyLoop sys root dest verbose es (i + BATCH_SIZE) cs1 = (None, cs')"
      by simp
    have ih: "promiseAll ?f (drop (i + BATCH_SIZE) es) cs1 = (None, cs')"
      using "1.IH" [OF True refl b [unfolded r, symmetric] refl rest] .
    have split: "drop i es = ?batch @ drop (i + BATCH_SIZE) es"
      by (simp add: js_slice_def add.commute [of i] flip: drop_drop)
    show ?thesis
      unfolding split promiseAll_append using b r ih by simp
  qed
qed

lemma copyLoop_one_batch:
  assumes "length es \<le> BATCH_SIZE"
  shows "copyLoop sys root dest verbose es 0 cs = promiseAll (copyEntry sys root dest verbose) es cs"
proof (cases "es = []")
  case True
  then show ?thesis by (subst copyLoop.simps) simp
next
  case False
  have slice: "js_slice es 0 BATCH_SIZE = es" using assms by (simp add: js_slice_def)
  obtain r cs1 where pa: "promiseAll (copyEntry sys root dest verbose) es cs = (r, cs1)"
    by (cases "promiseAll (copyEntry sys root dest verbose) es cs")
  have fin: "copyLoop sys root dest verbose es BATCH_SIZE cs1 = (None, cs1)"
    using assms by (subst copyLoop.simps) simp
  show ?thesis
    using False slice pa fin by (subst copyLoop.simps) (simp add: Let_def split: option.splits)
qed

lemma attempted_specCopy: "attempted (fst (specCopy sys root dest es w)) = length es"
proof (induction es arbitrary: w)
  case Nil
  show ?case by simp
next
  case (Cons e es)
  obtain r w1 where a: "specCopyOne sys root dest e w = (r, w1)" by (cases "specCopyOne sys root dest e w")
  obtain oc w2 where b: "specCopy sys root dest es w1 = (oc, w2)" by (cases "specCopy sys root dest es w1")
  from Cons [of w1] b have "attempted oc = length es" by simp
  with a b show ?case by simp
qed

lemma copyEntry_resolved:
  assumes "copyEntry sys root dest verbose e (c, st) = (None, c', st')"
  shows "\<exists>r. specCopyOne sys root dest e (world st) = (r, world st') \<and>
           (case r of
              None \<Rightarrow> c' = Suc c \<and> failedLines (console st') = failedLines (console st) \<and>
                       (\<not> verbose \<longrightarrow> console st' = console st)
            | Some err \<Rightarrow> c' = c \<and> console st' = console st @ [FailedToCopy e (message err)])"
  using assms
  by (auto simp: copyEntry_def specCopyOne_def Let_def emit_def emitIf_def failedLines_append
           split: prod.splits option.splits sum.splits if_splits)

lemma promiseAll_copyEntry_resolved:
  assumes "promiseAll (copyEntry sys root dest verbose) es (c, st) = (None, c', st')"
      and "specCopy sys root dest es (world st) = (oc, w')"
  shows "c' = c + succeeded oc \<and> world st' = w' \<and>
         failedLines (console st') = failedLines (console st) @ perEntryErrors oc \<and>
         (\<not> verbose \<longrightarrow> console st' = console st @ map (\<lambda>(e, m). FailedToCopy e m) (perEntryErrors oc))"
  using assms
proof (induction es arbitrary: c st oc w')
  case Nil
  then show ?case by auto
next
  case (Cons e es)
  from Cons.prems(1) obtain cs1 where
    one: "copyEntry sys root dest verbose e (c, st) = (None, cs1)" and
    rest: "promiseAll (copyEntry sys root dest verbose) es cs1 = (None, c', st')"
    by (rule promiseAll_Cons_None)
  obtain c1 st1 where cs1: "cs1 = (c1, st1)" by (cases cs1)
  from copyEntry_resolved [OF one [unfolded cs1]] obtain r where
    r: "specCopyOne sys root dest e (world st) = (r, world st1)" and
    rc: "(case r of
              None \<Rightarrow> c1 = Suc c \<and> failedLines (console st1) = failedLines (console st) \<and>
                       (\<not> verbose \<longrightarrow> console st1 = console st)
            | Some err \<Rightarrow> c1 = c \<and> console st1 = console st @ [FailedToCopy e (message err)])"
    by blast
  obtain oc1 w2 where sc: "specCopy sys root dest es (world st1) = (oc1, w2)"
    by (cases "specCopy sys root dest es (world st1)")
  note ih = Cons.IH [OF rest [unfolded cs1] sc]
  from Cons.prems(2) r sc have w: "w' = w2" by simp
  show ?case
  proof (cases r)
    case None
    with Cons.prems(2) r sc have oc: "succeeded oc = Suc (succeeded oc1)" "perEntryErrors oc = perEntryErrors oc1"
      by auto
    from None rc ih w oc show ?thesis by simp
  next
    case (Some err)
    with Cons.prems(2) r sc have oc: "succeeded oc = succeeded oc1"
      "perEntryErrors oc = (e, message err) # perEntryErrors oc1"
      by auto
    from Some rc ih w oc show ?thesis by (simp add: failedLines_append)
  qed
qed

text \<open>
  C2, as the code has it. \<open>useNodeImplementation\<close> returns no outcome. When it is given
  a directory and resolves, then, for the outcome the specification describes for the
  filtered entries: the number attempted is the number of filtered entries; the
  \<^verbatim>\<open>Failed to copy\<close> lines written to the console are the failed entries with their
  messages, in order; in verbose mode the last line written reports the number
  succeeded out of the number attempted; and without verbose mode nothing but the
  \<^verbatim>\<open>Failed to copy\<close> lines is written.
\<close>

theorem copier_counts_and_logs:
  assumes "fs_stat sys inputPath (world st) = (Inr True, w1)"
      and "fast_glob sys (path_resolve sys inputPath) w1 = (Inr entries, w2)"
      and "filtered = filter (\<lambda>e. \<not> shouldExclude (minimatch sys) e pats) entries"
      and "specCopy sys (path_resolve sys inputPath) outputPath filtered w2 = (oc, w3)"
      and "useNodeImplementation sys inputPath outputPath pats verbose st = (None, st')"
  shows "attempted oc = length filtered \<and> world st' = w3 \<and>
         failedLines (console st') = failedLines (console st) @ perEntryErrors oc \<and>
         (verbose \<longrightarrow> last (console st') = Summary (succeeded oc) (attempted oc)) \<and>
         (\<not> verbose \<longrightarrow>
            console st' = console st @ map (\<lambda>(e, m). FailedToCopy e m) (perEntryErrors oc))"
proof -
  let ?root = "path_resolve sys inputPath"
  let ?st3 = "emitIf verbose [AfterExclusion (length filtered)]
                (emitIf verbose [FoundEntries (length entries)] (st\<lparr>world := w2\<rparr>))"
  have att: "attempted oc = length filtered"
    using attempted_specCopy [of sys ?root outputPath filtered w2] assms(4) by simp
  obtain r k st4 where loop: "copyLoop sys ?root outputPath verbose filtered 0 (0, ?st3) = (r, k, st4)"
    by (cases "copyLoop sys ?root outputPath verbose filtered 0 (0, ?st3)")
  from assms(1,2,5) loop assms(3) have r: "r = None"
    by (cases r) (simp_all add: useNodeImplementation_def Let_def)
  from assms(1,2,5) loop assms(3) r have st': "st' = emitIf verbose [Summary k (length filtered)] st4"
    by (simp add: useNodeImplementation_def Let_def)
  from copyLoop_resolved [OF loop [unfolded r]]
  have pa: "promiseAll (copyEntry sys ?root outputPath verbose) filtered (0, ?st3) = (None, k, st4)"
    by simp
  have w: "world ?st3 = w2" by simp
  from promiseAll_copyEntry_resolved [OF pa, unfolded w, OF assms(4)]
  have k: "k = succeeded oc" and w4: "world st4 = w3"
    and fl: "failedLines (console st4) = failedLines (console ?st3) @ perEntryErrors oc"
    and nv: "\<not> verbose \<longrightarrow> console st4 = console ?st3 @ map (\<lambda>(e, m). FailedToCopy e m) (perEntryErrors oc)"
    by simp_all
  have c3: "failedLines (console ?st3) = failedLines (console st)"
    by (simp add: emitIf_def emit_def failedLines_append)
  have "failedLines (console st') = failedLines (console st) @ perEntryErrors oc"
    using fl c3 st' by (simp add: emitIf_def emit_def failedLines_append)
  moreover have "verbose \<longrightarrow> last (console st') = Summary (succeeded oc) (attempted oc)"
    using st' k att by (simp add: emitIf_def emit_def)
  moreover have "\<not> verbose \<longrightarrow>
            console st' = console st @ map (\<lambda>(e, m). FailedToCopy e m) (perEntryErrors oc)"
    using nv st' by (simp add: emitIf_def emit_def)
  moreover have "world st' = w3" using st' w4 by simp
  ultimately show ?thesis using att by simp
qed

theorem copier_counts_and_logs_witness:
  "fs_stat vanishedSystem ''in'' [] = (Inr True, [Stat ''in'']) \<and>
   fast_glob vanishedSystem (path_resolve vanishedSystem ''in'') [Stat ''in''] =
     (Inr [''a'', ''b'', ''c'', ''x.log''], [Stat ''in'', Glob ''in'']) \<and>
   [''a'', ''b'', ''c''] =
     filter (\<lambda>e. \<not> shouldExclude (minimatch vanishedSystem) e [''*.log'']) [''a'', ''b'', ''c'', ''x.log''] \<and>
   fst (specCopy vanishedSystem (path_resolve vanishedSystem ''in'') ''out'' [''a'', ''b'', ''c'']
          [Stat ''in'', Glob ''in'']) =
     \<lparr>attempted = 3, succeeded = 2, perEntryErrors = [(''b'', ''ENOENT'')]\<rparr> \<and>
   fst (useNodeImplementation vanishedSystem ''in'' ''out'' [''*.log''] True \<lparr>world = [], console = []\<rparr>) = None \<and>
   console (snd (useNodeImplementation vanishedSystem ''in'' ''out'' [''*.log''] True
                   \<lparr>world = [], console = []\<rparr>)) =
     [FoundEntries 4, AfterExclusion 3, FailedToCopy ''b'' ''ENOENT'', Summary 2 3] \<and>
   failedLines (console (snd (useNodeImplementation vanishedSystem ''in'' ''out'' [''*.log''] True
                   \<lparr>world = [], console = []\<rparr>))) = [(''b'', ''ENOENT'')] \<and>
   last (console (snd (useNodeImplementation vanishedSystem ''in'' ''out'' [''*.log''] True
                   \<lparr>world = [], console = []\<rparr>))) = Summary 2 3"
proof -
  let ?S = vanishedSystem
  let ?st = "\<lparr>world = ([] :: sys_call list), console = []\<rparr>"
  let ?W = "[Stat ''in'', Glob ''in'', EnsureDir ''out'', Stat ''in/a'',
      Copy ''in/a'' ''out/a'' True, EnsureDir ''out'', Stat ''in/b'',
      EnsureDir ''out'', Stat ''in/c'', EnsureDir ''out/c'']"
  let ?oc = "\<lparr>attempted = 3, succeeded = 2, perEntryErrors = [(''b'', ''ENOENT'')]\<rparr>"
  let ?run = "useNodeImplementation ?S ''in'' ''out'' [''*.log''] True ?st"
  have h1: "fs_stat ?S ''in'' (world ?st) = (Inr True, [Stat ''in''])"
    by (simp add: vanishedSystem_def recordingSystem_def)
  have h2: "fast_glob ?S (path_resolve ?S ''in'') [Stat ''in''] =
     (Inr [''a'', ''b'', ''c'', ''x.log''], [Stat ''in'', Glob ''in''])"
    by (simp add: vanishedSystem_def recordingSystem_def)
  have h3: "[''a'', ''b'', ''c''] =
     filter (\<lambda>e. \<not> shouldExclude (minimatch ?S) e [''*.log'']) [''a'', ''b'', ''c'', ''x.log'']"
    by (simp add: vanishedSystem_def run_eval)
  have h4: "specCopy ?S (path_resolve ?S ''in'') ''out'' [''a'', ''b'', ''c''] [Stat ''in'', Glob ''in''] =
     (?oc, ?W)"
    by (simp add: vanishedSystem_def run_eval)
  have h5: "?run = (None, snd ?run)"
    by (simp add: vanishedSystem_def run_eval copyLoop_one_batch BATCH_SIZE_def)
  have c: "console (snd ?run) =
     [FoundEntries 4, AfterExclusion 3, FailedToCopy ''b'' ''ENOENT'', Summary 2 3]"
    by (simp add: vanishedSystem_def run_eval copyLoop_one_batch BATCH_SIZE_def)
  note inst = copier_counts_and_logs [OF h1 h2 h3 h4 h5]
  from inst have f: "failedLines (console (snd ?run)) = [(''b'', ''ENOENT'')]" by simp
  from inst have l: "last (console (snd ?run)) = Summary 2 3" by simp
  from h1 have h1': "fs_stat ?S ''in'' [] = (Inr True, [Stat ''in''])" by simp
  from h4 have h4': "fst (specCopy ?S (path_resolve ?S ''in'') ''out'' [''a'', ''b'', ''c'']
          [Stat ''in'', Glob ''in'']) = ?oc" by simp
  from h5 have h5': "fst ?run = None" by (metis fst_conv)
  show ?thesis
    by (intro conjI) (rule h1' h2 h3 h4' h5' c f l)+
qed

lemma plain_run_one: "useNodeImplementation (plainSystem [''a'']) ''in'' ''out'' [] False \<lparr>world = [], console = []\<rparr> =
   (None, \<lparr>world = [Stat ''in'', Glob ''in'', EnsureDir ''out'', Stat ''in/a'',
      Copy ''in/a'' ''out/a'' True], console = []\<rparr>)"
  by (simp add: plainSystem_def run_eval copyLoop_one_batch BATCH_SIZE_def)

lemma plain_run_two: "useNodeImplementation (plainSystem [''a'', ''b'']) ''in'' ''out'' [] False \<lparr>world = [], console = []\<rparr> =
   (None, \<lparr>world = [Stat ''in'', Glob ''in'', EnsureDir ''out'', Stat ''in/a'',
      Copy ''in/a'' ''out/a'' True, EnsureDir ''out'', Stat ''in/b'',
      Copy ''in/b'' ''out/b'' True], console = []\<rparr>)"
  by (simp add: plainSystem_def run_eval copyLoop_one_batch BATCH_SIZE_def)

text \<open>
  C2, as the specification states it, fails: without verbose mode a run over one entry
  and a run over two entries, all copied, return the same value and write the same
  (empty) console, so nothing returned or written gives the number of entries
  attempted.
\<close>

theorem no_outcome_is_returned:
  "\<not> (\<exists>attemptedOf :: js_error option \<times> console_line list \<Rightarrow> nat.
        attemptedOf
          (fst (useNodeImplementation (plainSystem [''a'']) ''in'' ''out'' [] False \<lparr>world = [], console = []\<rparr>),
           console (snd (useNodeImplementation (plainSystem [''a'']) ''in'' ''out'' [] False \<lparr>world = [], console = []\<rparr>)))
          = length [''a''] \<and>
        attemptedOf
          (fst (useNodeImplementation (plainSystem [''a'', ''b'']) ''in'' ''out'' [] False \<lparr>world = [], console = []\<rparr>),
           console (snd (useNodeImplementation (plainSystem [''a'', ''b'']) ''in'' ''out'' [] False \<lparr>world = [], console = []\<rparr>)))
          = length [''a'', ''b''])"
  unfolding plain_run_one plain_run_two by simp

lemma copyEntry_recording_calls:
  assumes "copyEntry (recordingSystem failure isDir entries n platform mm) root dest verbose e (c, st) = (r, c', st')"
  shows "set (world st') \<subseteq> set (world st) \<union> touched root dest e"
  using assms
  by (auto simp: copyEntry_def recordingSystem_def emit_def emitIf_def touched_def Let_def
           split: prod.splits option.splits sum.splits if_splits)

lemma promiseAll_recording_calls:
  assumes "promiseAll (copyEntry (recordingSystem failure isDir entries n platform mm) root dest verbose) es (c, st) = (r, c', st')"
  shows "set (world st') \<subseteq> set (world st) \<union> (\<Union>e\<in>set es. touched root dest e)"
  using assms
proof (induction es arbitrary: c st r c' st')
  case Nil
  then show ?case by simp
next
  case (Cons e es)
  let ?f = "copyEntry (recordingSystem failure isDir entries n platform mm) root dest verbose"
  obtain r1 c1 st1 where one: "?f e (c, st) = (r1, c1, st1)" by (cases "?f e (c, st)")
  obtain r2 c2 st2 where rest: "promiseAll ?f es (c1, st1) = (r2, c2, st2)"
    by (cases "promiseAll ?f es (c1, st1)")
  from Cons.prems one rest have st': "st' = st2" by simp
  from copyEntry_recording_calls [OF one] Cons.IH [OF rest] st'
  show ?case by auto
qed

lemma promiseAll_rejects_at:
  assumes "promiseAll f pre s = (None, s1)" and "fst (f e s1) = Some err"
  shows "fst (promiseAll f (pre @ e # post) s) = Some err"
  using assms promiseAll_first_rejects [of f e s1 err post]
  by (simp add: promiseAll_append split: prod.splits)

text \<open>
  C1 fails on the code: the creation of the parent directory stands before the
  \<^verbatim>\<open>try\<close>. When it fails for an entry of a full first batch, after the entries before
  it have resolved, the callback of that entry rejects with nothing written to the
  console, the loop rejects with that error, and its result is that of the first batch
  alone: no entry of a later batch is attempted.
\<close>

theorem parent_dir_failure_aborts_copy:
  assumes "length (pre @ e # post) = BATCH_SIZE"
      and "promiseAll (copyEntry sys root dest verbose) pre (c, st) = (None, c1, st1)"
      and "fs_ensureDir sys (path_dirname sys (path_join sys dest e)) (world st1) = (Some err, w1)"
  shows "copyEntry sys root dest verbose e (c1, st1) = (Some err, c1, st1\<lparr>world := w1\<rparr>) \<and>
         fst (copyLoop sys root dest verbose ((pre @ e # post) @ rest) 0 (c, st)) = Some err \<and>
         copyLoop sys root dest verbose ((pre @ e # post) @ rest) 0 (c, st) =
           promiseAll (copyEntry sys root dest verbose) (pre @ e # post) (c, st)"
proof -
  let ?f = "copyEntry sys root dest verbose"
  let ?batch = "pre @ e # post"
  have one: "?f e (c1, st1) = (Some err, c1, st1\<lparr>world := w1\<rparr>)"
    using assms(3) by (simp add: copyEntry_def Let_def)
  then have "fst (?f e (c1, st1)) = Some err" by simp
  with assms(2) have rej: "fst (promiseAll ?f ?batch (c, st)) = Some err"
    by (rule promiseAll_rejects_at)
  have "take (length ?batch) (?batch @ rest) = ?batch" by simp
  then have "take BATCH_SIZE (?batch @ rest) = ?batch" by (simp only: assms(1))
  then have slice: "js_slice (?batch @ rest) 0 BATCH_SIZE = ?batch"
    by (simp add: js_slice_def)
  obtain cs1 where pa: "promiseAll ?f ?batch (c, st) = (Some err, cs1)"
    using rej by (cases "promiseAll ?f ?batch (c, st)") simp
  have nonempty: "0 < length (?batch @ rest)" by simp
  have "copyLoop sys root dest verbose (?batch @ rest) 0 (c, st) = (Some err, cs1)"
    using slice pa nonempty by (subst copyLoop.simps) (simp add: Let_def del: length_append append_assoc)
  with one pa show ?thesis by simp
qed

theorem parent_dir_failure_aborts_copy_witness:
  "length ([''sub''] @ ''sub/f.txt'' # ninetyEight) = BATCH_SIZE \<and>
   promiseAll (copyEntry brokenParentSystem ''in'' ''out'' False) [''sub'']
       (0, \<lparr>world = [], console = []\<rparr>) =
     (None, 0, \<lparr>world = [EnsureDir ''out'', Stat ''in/sub'', EnsureDir ''out/sub''],
                console = [FailedToCopy ''sub'' ''ENOTDIR'']\<rparr>) \<and>
   fs_ensureDir brokenParentSystem
      (path_dirname brokenParentSystem (path_join brokenParentSystem ''out'' ''sub/f.txt''))
      [EnsureDir ''out'', Stat ''in/sub'', EnsureDir ''out/sub''] =
      (Some (JsError ''ENOTDIR'' StatusUndefined),
       [EnsureDir ''out'', Stat ''in/sub'', EnsureDir ''out/sub'', EnsureDir ''out/sub'']) \<and>
   copyEntry brokenParentSystem ''in'' ''out'' False ''sub/f.txt''
       (0, \<lparr>world = [EnsureDir ''out'', Stat ''in/sub'', EnsureDir ''out/sub''],
              console = [FailedToCopy ''sub'' ''ENOTDIR'']\<rparr>) =
     (Some (JsError ''ENOTDIR'' StatusUndefined), 0,
      \<lparr>world = [EnsureDir ''out'', Stat ''in/sub'', EnsureDir ''out/sub'', EnsureDir ''out/sub''],
        console = [FailedToCopy ''sub'' ''ENOTDIR'']\<rparr>) \<and>
   fst (copyLoop brokenParentSystem ''in'' ''out'' False
          (([''sub''] @ ''sub/f.txt'' # ninetyEight) @ [''z.txt'']) 0
          (0, \<lparr>world = [], console = []\<rparr>)) = Some (JsError ''ENOTDIR'' StatusUndefined) \<and>
   Stat ''in/z.txt'' \<notin> set (world (snd (snd
      (copyLoop brokenParentSystem ''in'' ''out'' False
          (([''sub''] @ ''sub/f.txt'' # ninetyEight) @ [''z.txt'']) 0
          (0, \<lparr>world = [], console = []\<rparr>)))))"
proof -
  let ?S = brokenParentSystem
  let ?st = "\<lparr>world = ([] :: sys_call list), console = []\<rparr>"
  let ?W1 = "[EnsureDir ''out'', Stat ''in/sub'', EnsureDir ''out/sub'']"
  let ?st1 = "\<lparr>world = ?W1, console = [FailedToCopy ''sub'' ''ENOTDIR'']\<rparr>"
  let ?batch = "[''sub''] @ ''sub/f.txt'' # ninetyEight"
  let ?run = "copyLoop ?S ''in'' ''out'' False (?batch @ [''z.txt'']) 0 (0, ?st)"
  have len: "length ?batch = BATCH_SIZE"
    by (simp add: ninetyEight_def BATCH_SIZE_def)
  have pre: "promiseAll (copyEntry ?S ''in'' ''out'' False) [''sub''] (0, ?st) = (None, 0, ?st1)"
    by (simp add: brokenParentSystem_def copyEntry_def Let_def recording_eval)
  have ens: "fs_ensureDir ?S (path_dirname ?S (path_join ?S ''out'' ''sub/f.txt'')) (world ?st1) =
      (Some (JsError ''ENOTDIR'' StatusUndefined), ?W1 @ [EnsureDir ''out/sub''])"
    by (simp add: brokenParentSystem_def recording_eval)
  then have ens0: "fs_ensureDir ?S (path_dirname ?S (path_join ?S ''out'' ''sub/f.txt'')) ?W1 =
      (Some (JsError ''ENOTDIR'' StatusUndefined),
       [EnsureDir ''out'', Stat ''in/sub'', EnsureDir ''out/sub'', EnsureDir ''out/sub''])"
    by simp
  note inst = parent_dir_failure_aborts_copy [OF len pre ens, of "[''z.txt'']"]
  from inst have one: "copyEntry ?S ''in'' ''out'' False ''sub/f.txt'' (0, ?st1) =
     (Some (JsError ''ENOTDIR'' StatusUndefined), 0,
      \<lparr>world = [EnsureDir ''out'', Stat ''in/sub'', EnsureDir ''out/sub'', EnsureDir ''out/sub''],
        console = [FailedToCopy ''sub'' ''ENOTDIR'']\<rparr>)"
    by simp
  from inst have rej: "fst ?run = Some (JsError ''ENOTDIR'' StatusUndefined)" by blast
  from inst have eq: "?run = promiseAll (copyEntry ?S ''in'' ''out'' False) ?batch (0, ?st)"
    by blast
  obtain r k st' where run: "?run = (r, k, st')" by (cases ?run)
  have pa: "promiseAll (copyEntry ?S ''in'' ''out'' False) ?batch (0, ?st) = (r, k, st')"
    using eq run by (simp only:)
  from promiseAll_recording_calls [OF pa [unfolded brokenParentSystem_def]]
  have sub: "set (world st') \<subseteq> (\<Union>e\<in>set ?batch. touched ''in'' ''out'' e)"
    by simp
  have "Stat ''in/z.txt'' \<notin> touched ''in'' ''out'' e" if "e \<in> set ?batch" for e
  proof -
    from that have "e \<noteq> ''z.txt''" by (auto simp: ninetyEight_def)
    then show ?thesis by (simp add: touched_def slashJoin_def)
  qed
  with sub have "Stat ''in/z.txt'' \<notin> set (world st')" by blast
  then have untouched: "Stat ''in/z.txt'' \<notin> set (world (snd (snd ?run)))"
    unfolding run by simp
  show ?thesis
    by (intro conjI) (rule len pre ens0 one rej untouched)+
qed

section \<open>useWindowsRobocopy and copyFiles\<close>

lemma useWindowsRobocopy_fst:
  "fst (useWindowsRobocopy sys inputPath outputPath pats verbose st) =
     (case acceleratorExit sys inputPath outputPath pats verbose st of
        Exited n \<Rightarrow>
          if n \<le> 7 then None
          else Some (JsError (''Command failed: '' @
                 robocopyCommand (path_resolve sys inputPath) (path_resolve sys outputPath)
                   (processExcludePatternsForRobocopy pats)) (StatusNumber n))
      | NotStarted m \<Rightarrow> None)"
  by (auto simp: useWindowsRobocopy_def acceleratorExit_def execSync_def Let_def
           split: prod.splits proc_result.splits option.splits)

text \<open>
  C4 fails on the code for a command that cannot be started. In a run of \<open>copyFiles\<close>
  on Windows over a directory: when the command exits, \<open>useWindowsRobocopy\<close> succeeds
  exactly when the status is from 0 to 7; when the command cannot be started, the error
  carries the status \<^verbatim>\<open>null\<close>, the test \<^verbatim>\<open>exitCode !== undefined && exitCode <= 7\<close> holds
  and \<open>useWindowsRobocopy\<close> succeeds as well; on success \<open>copyFiles\<close> returns its result
  and copies nothing itself; and whenever \<open>useWindowsRobocopy\<close> throws, \<open>copyFiles\<close>
  continues with \<open>useNodeImplementation\<close> and returns what that returns, writing about
  the failure in verbose mode only.
\<close>

theorem accelerator_status_and_spawn_failure:
  assumes "fs_access sys inputPath (world st) = (None, w1)"
      and "fs_ensureDir sys outputPath w1 = (None, w2)"
      and "fs_stat sys inputPath w2 = (Inr True, w3)"
      and "os_platform sys = ''win32''"
      and "pats = (if opt_ignoreDefaults options then opt_excludePatterns options
                   else DEFAULT_EXCLUDE_PATTERNS @ opt_excludePatterns options)"
      and "st3 = (emitIf (opt_verbose options \<and> length pats > 0)
                    (ExcludingPatterns # map ListItem pats)
                    (emitIf (opt_verbose options) [CopyingFrom inputPath, CopyingTo outputPath] st))
                 \<lparr>world := w3\<rparr>"
      and "robocopy = useWindowsRobocopy sys inputPath outputPath pats (opt_verbose options) st3"
  shows "(\<forall>n. acceleratorExit sys inputPath outputPath pats (opt_verbose options) st3 = Exited n \<longrightarrow>
            (fst robocopy = None \<longleftrightarrow> n \<le> 7)) \<and>
         (\<forall>m. acceleratorExit sys inputPath outputPath pats (opt_verbose options) st3 = NotStarted m \<longrightarrow>
            fst robocopy = None) \<and>
         (fst robocopy = None \<longrightarrow> copyFiles sys inputPath outputPath options st = robocopy) \<and>
         (\<forall>err. fst robocopy = Some err \<longrightarrow>
            copyFiles sys inputPath outputPath options st =
              useNodeImplementation sys inputPath outputPath pats (opt_verbose options)
                (emitIf (opt_verbose options) [RobocopyFailed, ErrorObject err] (snd robocopy)))"
proof -
  let ?v = "opt_verbose options"
  have a: "fst robocopy = None \<longleftrightarrow> n \<le> 7"
    if "acceleratorExit sys inputPath outputPath pats ?v st3 = Exited n" for n
    unfolding assms(7) useWindowsRobocopy_fst using that by simp
  have b: "fst robocopy = None"
    if "acceleratorExit sys inputPath outputPath pats ?v st3 = NotStarted m" for m
    unfolding assms(7) useWindowsRobocopy_fst using that by simp
  have run: "copyFiles sys inputPath outputPath options st =
      (case robocopy of
         (None, st4) \<Rightarrow> (None, st4)
       | (Some error, st4) \<Rightarrow>
           useNodeImplementation sys inputPath outputPath pats ?v
             (emitIf ?v [RobocopyFailed, ErrorObject error] st4))"
    using assms(1-4) unfolding assms(5-7)
    by (simp add: copyFiles_def Let_def)
  have c: "copyFiles sys inputPath outputPath options st = robocopy" if "fst robocopy = None"
    using that unfolding run by (cases robocopy) simp
  have d: "copyFiles sys inputPath outputPath options st =
              useNodeImplementation sys inputPath outputPath pats ?v
                (emitIf ?v [RobocopyFailed, ErrorObject err] (snd robocopy))"
    if "fst robocopy = Some err" for err
    using that unfolding run by (cases robocopy) simp
  show ?thesis using a b c d by blast
qed

theorem accelerator_status_and_spawn_failure_witness:
  "fs_access spawnFailureSystem ''in'' [] = (None, [Access ''in'']) \<and>
   fs_ensureDir spawnFailureSystem ''out'' [Access ''in''] = (None, [Access ''in'', EnsureDir ''out'']) \<and>
   fs_stat spawnFailureSystem ''in'' [Access ''in'', EnsureDir ''out''] =
     (Inr True, [Access ''in'', EnsureDir ''out'', Stat ''in'']) \<and>
   os_platform spawnFailureSystem = ''win32'' \<and>
   acceleratorExit spawnFailureSystem ''in'' ''out'' [''*.log''] False
     \<lparr>world = [Access ''in'', EnsureDir ''out'', Stat ''in''], console = []\<rparr> =
     NotStarted ''spawnSync ENOENT'' \<and>
   copyFiles spawnFailureSystem ''in'' ''out''
       \<lparr>opt_excludePatterns = [''*.log''], opt_ignoreDefaults = True, opt_verbose = False\<rparr>
       \<lparr>world = [], console = []\<rparr> =
     (None,
      \<lparr>world =
         [Access ''in'', EnsureDir ''out'', Stat ''in'',
          Exec (robocopyCommand ''in'' ''out'' \<lparr>dirExcludes = [], fileExcludes = [''*.log'']\<rparr>) False],
       console = []\<rparr>) \<and>
   acceleratorExit (windowsSystem 16) ''in'' ''out'' [''*.log''] False
     \<lparr>world = [Access ''in'', EnsureDir ''out'', Stat ''in''], console = []\<rparr> = Exited 16 \<and>
   fst (useWindowsRobocopy (windowsSystem 16) ''in'' ''out'' [''*.log''] False
     \<lparr>world = [Access ''in'', EnsureDir ''out'', Stat ''in''], console = []\<rparr>) \<noteq> None \<and>
   copyFiles (windowsSystem 16) ''in'' ''out''
       \<lparr>opt_excludePatterns = [''*.log''], opt_ignoreDefaults = True, opt_verbose = False\<rparr>
       \<lparr>world = [], console = []\<rparr> =
     (None,
      \<lparr>world =
         [Access ''in'', EnsureDir ''out'', Stat ''in'',
          Exec (robocopyCommand ''in'' ''out'' \<lparr>dirExcludes = [], fileExcludes = [''*.log'']\<rparr>) False,
          Stat ''in'', Glob ''in'', EnsureDir ''out'', Stat ''in/a.txt'',
          Copy ''in/a.txt'' ''out/a.txt'' True],
       console = []\<rparr>)"
proof -
  let ?F = spawnFailureSystem
  let ?S = "windowsSystem 16"
  let ?opts = "\<lparr>opt_excludePatterns = [''*.log''], opt_ignoreDefaults = True, opt_verbose = False\<rparr>"
  let ?st = "\<lparr>world = ([] :: sys_call list), console = []\<rparr>"
  let ?st3 = "\<lparr>world = [Access ''in'', EnsureDir ''out'', Stat ''in''], console = []\<rparr>"
  let ?cmd = "robocopyCommand ''in'' ''out'' \<lparr>dirExcludes = [], fileExcludes = [''*.log'']\<rparr>"
  have h5: "[''*.log''] = (if opt_ignoreDefaults ?opts then opt_excludePatterns ?opts
                   else DEFAULT_EXCLUDE_PATTERNS @ opt_excludePatterns ?opts)"
    by simp
  have h6: "?st3 = (emitIf (opt_verbose ?opts \<and> length [''*.log''] > 0)
                    (ExcludingPatterns # map ListItem [''*.log''])
                    (emitIf (opt_verbose ?opts) [CopyingFrom ''in'', CopyingTo ''out''] ?st))
                 \<lparr>world := [Access ''in'', EnsureDir ''out'', Stat ''in'']\<rparr>"
    by (simp add: emitIf_def)

  let ?robF = "useWindowsRobocopy ?F ''in'' ''out'' [''*.log''] False ?st3"
  have f1: "fs_access ?F ''in'' (world ?st) = (None, [Access ''in''])"
    by (simp add: spawnFailureSystem_def recordingSystem_def failWith_def)
  have f2: "fs_ensureDir ?F ''out'' [Access ''in''] = (None, [Access ''in'', EnsureDir ''out''])"
    by (simp add: spawnFailureSystem_def recordingSystem_def failWith_def)
  have f3: "fs_stat ?F ''in'' [Access ''in'', EnsureDir ''out''] =
     (Inr True, [Access ''in'', EnsureDir ''out'', Stat ''in''])"
    by (simp add: spawnFailureSystem_def recordingSystem_def)
  have f4: "os_platform ?F = ''win32''"
    by (simp add: spawnFailureSystem_def recordingSystem_def)
  note instF = accelerator_status_and_spawn_failure [OF f1 f2 f3 f4 h5 h6 refl]
  have exF: "acceleratorExit ?F ''in'' ''out'' [''*.log''] False ?st3 = NotStarted ''spawnSync ENOENT''"
    by (simp add: acceleratorExit_def spawnFailureSystem_def recordingSystem_def)
  from instF exF have okF: "fst ?robF = None" by simp
  have sndF: "snd ?robF = \<lparr>world = [Access ''in'', EnsureDir ''out'', Stat ''in'', Exec ?cmd False],
          console = []\<rparr>"
    by (simp add: spawnFailureSystem_def files_eval recording_eval)
  from instF okF have "copyFiles ?F ''in'' ''out'' ?opts ?st = ?robF" by simp
  also have "\<dots> = (None, \<lparr>world = [Access ''in'', EnsureDir ''out'', Stat ''in'', Exec ?cmd False],
          console = []\<rparr>)"
    using okF sndF by (cases ?robF) simp
  finally have runF: "copyFiles ?F ''in'' ''out'' ?opts ?st =
     (None, \<lparr>world = [Access ''in'', EnsureDir ''out'', Stat ''in'', Exec ?cmd False],
          console = []\<rparr>)" .
  from f1 have f1': "fs_access ?F ''in'' [] = (None, [Access ''in''])" by simp

  let ?rob = "useWindowsRobocopy ?S ''in'' ''out'' [''*.log''] False ?st3"
  have h1: "fs_access ?S ''in'' (world ?st) = (None, [Access ''in''])"
    by (simp add: windowsSystem_def recordingSystem_def failWith_def)
  have h2: "fs_ensureDir ?S ''out'' [Access ''in''] = (None, [Access ''in'', EnsureDir ''out''])"
    by (simp add: windowsSystem_def recordingSystem_def failWith_def)
  have h3: "fs_stat ?S ''in'' [Access ''in'', EnsureDir ''out''] =
     (Inr True, [Access ''in'', EnsureDir ''out'', Stat ''in''])"
    by (simp add: windowsSystem_def recordingSystem_def)
  have h4: "os_platform ?S = ''win32''"
    by (simp add: windowsSystem_def recordingSystem_def)
  note inst = accelerator_status_and_spawn_failure [OF h1 h2 h3 h4 h5 h6 refl]
  have ex: "acceleratorExit ?S ''in'' ''out'' [''*.log''] False ?st3 = Exited 16"
    by (simp add: acceleratorExit_def windowsSystem_def recordingSystem_def)
  from inst ex have rej: "fst ?rob \<noteq> None" by simp
  then obtain err where err: "fst ?rob = Some err" by blast
  have rob: "snd ?rob = \<lparr>world = [Access ''in'', EnsureDir ''out'', Stat ''in'', Exec ?cmd False],
          console = []\<rparr>"
    by (simp add: windowsSystem_def files_eval recording_eval)
  from inst err have "copyFiles ?S ''in'' ''out'' ?opts ?st =
      useNodeImplementation ?S ''in'' ''out'' [''*.log''] False
        (emitIf False [RobocopyFailed, ErrorObject err] (snd ?rob))"
    by simp
  also have "\<dots> = (None,
      \<lparr>world =
         [Access ''in'', EnsureDir ''out'', Stat ''in'', Exec ?cmd False,
          Stat ''in'', Glob ''in'', EnsureDir ''out'', Stat ''in/a.txt'',
          Copy ''in/a.txt'' ''out/a.txt'' True],
       console = []\<rparr>)"
    unfolding rob by (simp add: windowsSystem_def run_eval copyLoop_one_batch BATCH_SIZE_def)
  finally have run: "copyFiles ?S ''in'' ''out'' ?opts ?st = (None,
      \<lparr>world =
         [Access ''in'', EnsureDir ''out'', Stat ''in'', Exec ?cmd False,
          Stat ''in'', Glob ''in'', EnsureDir ''out'', Stat ''in/a.txt'',
          Copy ''in/a.txt'' ''out/a.txt'' True],
       console = []\<rparr>)" .
  show ?thesis
    by (intro conjI) (rule f1' f2 f3 f4 exF runF ex rej run)+
qed

end
